theory Spec2Isabelle
  imports Complex_Main
begin

section \<open>Core types (src/core/types.ts)\<close>

text \<open>
  JavaScript numbers are modelled as real numbers; frame indices, which the
  program only ever produces as whole numbers, as integers.  The coordinates
  of the points of a path are the exception (see \<open>number\<close> below): \<open>clone\<close>
  sends them through JSON, which does not give every number back.
\<close>

type_synonym UID = string

text \<open>
  Objects are mutable and are passed by reference.  Where it matters which
  object a field points to, the model keeps the identity of the object (its
  address) next to its contents: \<open>Obj a v\<close> is the object at address \<open>a\<close>
  whose fields currently hold \<open>v\<close>.  Two references are aliases exactly when
  their addresses are equal.
\<close>

type_synonym addr = nat

datatype 'a obj = Obj (addrOf: addr) (contents: 'a)

text \<open>The only exception the core can raise: a method call on an object
  that does not have the method (a plain object where a class instance is
  expected).\<close>

datatype error = TypeError

text \<open>
  The value of a coordinate: a finite double, with the negative zero apart,
  or one of the three values that are not finite.  After
  \<^verbatim>\<open>JSON.parse(JSON.stringify(...))\<close> a coordinate can also be \<^verbatim>\<open>null\<close>, which
  is \<open>None\<close> here.  \<open>Finite 0\<close> is the positive zero.
\<close>

datatype number = Finite real | NegZero | PosInfinity | NegInfinity | NaN

record Point =
  pt_x :: "number option"
  pt_y :: "number option"

record Transform =
  t_x :: real
  t_y :: real
  scaleX :: real
  scaleY :: real
  rotation :: real
  skewX :: real
  skewY :: real
  t_alpha :: real

record Color =
  col_r :: real
  col_g :: real
  col_b :: real
  col_a :: real

datatype LineCap = CapButt | CapRound | CapSquare

datatype LineJoin = JoinMiter | JoinRound | JoinBevel

record StrokeStyle =
  st_color :: "Color obj"
  st_width :: real
  lineCap :: LineCap
  lineJoin :: LineJoin

datatype GradientType = GradLinear | GradRadial

record GradientStop =
  gs_offset :: real
  gs_color :: Color

record Gradient =
  gr_type :: GradientType
  gr_stops :: "GradientStop list"
  gr_angle :: "real option"
  gr_radius :: "real option"

datatype FillType = FillSolid | FillGradient | FillPattern

record FillStyle =
  fi_type :: FillType
  fi_color :: "Color obj option"
  fi_gradient :: "Gradient obj option"

datatype PathType = MoveTo | LineTo | CurveTo | QuadTo | ClosePath

record PathCommand =
  pc_type :: PathType
  pc_points :: "Point list"

record VectorPath =
  vp_commands :: "PathCommand list"
  vp_closed :: bool

datatype SymbolType = Graphic | Movieclip | Button

datatype TweenType = TweenNone | TweenMotion | TweenShape

datatype EasingType = EaseLinear | EaseInT | EaseOutT | EaseInOutT | EaseCustom

record EasingFunction =
  ef_type :: EasingType
  ef_strength :: "real option"
  ef_customCurve :: "Point list option"

text \<open>
  The state of the running program outside the document: the allocator of
  object addresses, the outcomes of \<open>generateUID\<close> (which draws on
  \<^verbatim>\<open>Math.random\<close> and \<^verbatim>\<open>Date.now\<close>; \<open>uidSource n\<close> is the string that the
  \<open>n\<close>-th call returns, and a theorem about every \<open>uidSource\<close> is a theorem
  about every outcome), and the static counters of the classes.
\<close>

record Runtime =
  nextAddr :: addr
  uidSource :: "nat \<Rightarrow> UID"
  uidsDrawn :: nat
  layerCount :: nat
  symbolCount :: nat

definition generateUID :: "Runtime \<Rightarrow> UID \<times> Runtime" where
  "generateUID rt = (uidSource rt (uidsDrawn rt), rt\<lparr>uidsDrawn := Suc (uidsDrawn rt)\<rparr>)"

text \<open>Creating an object (\<^verbatim>\<open>new\<close>, an object or array literal, a spread
  copy, \<^verbatim>\<open>JSON.parse\<close>) takes the next address.\<close>

definition newObj :: "'a \<Rightarrow> Runtime \<Rightarrow> 'a obj \<times> Runtime" where
  "newObj v rt = (Obj (nextAddr rt) v, rt\<lparr>nextAddr := Suc (nextAddr rt)\<rparr>)"

definition createDefaultTransform :: "Runtime \<Rightarrow> Transform obj \<times> Runtime" where
  "createDefaultTransform rt =
     newObj \<lparr>t_x = 0, t_y = 0, scaleX = 1, scaleY = 1, rotation = 0,
             skewX = 0, skewY = 0, t_alpha = 1\<rparr> rt"

text \<open>Array helpers: \<^verbatim>\<open>findIndex\<close> (\<open>None\<close> for -1) and \<^verbatim>\<open>splice(i, 1)\<close>.\<close>

fun findIndex :: "('a \<Rightarrow> bool) \<Rightarrow> 'a list \<Rightarrow> nat option" where
  "findIndex P [] = None"
| "findIndex P (v # vs) = (if P v then Some 0 else map_option Suc (findIndex P vs))"

definition removeAt :: "nat \<Rightarrow> 'a list \<Rightarrow> 'a list" where
  "removeAt i vs = take i vs @ drop (Suc i) vs"

text \<open>
  \<^verbatim>\<open>JSON.parse(JSON.stringify(paths))\<close> on an array of paths.
  \<^verbatim>\<open>JSON.stringify\<close> prints a finite number so that \<^verbatim>\<open>JSON.parse\<close> reads the same
  number back, except that the negative zero is printed as \<^verbatim>\<open>0\<close>; it prints
  \<^verbatim>\<open>NaN\<close>, \<^verbatim>\<open>Infinity\<close> and \<^verbatim>\<open>-Infinity\<close> as \<^verbatim>\<open>null\<close>.  The strings and booleans
  of a path come back unchanged.
\<close>

fun jsonNumber :: "number option \<Rightarrow> number option" where
  "jsonNumber (Some (Finite r)) = Some (Finite r)"
| "jsonNumber (Some NegZero) = Some (Finite 0)"
| "jsonNumber (Some PosInfinity) = None"
| "jsonNumber (Some NegInfinity) = None"
| "jsonNumber (Some NaN) = None"
| "jsonNumber None = None"

definition jsonPoint :: "Point \<Rightarrow> Point" where
  "jsonPoint p = \<lparr>pt_x = jsonNumber (pt_x p), pt_y = jsonNumber (pt_y p)\<rparr>"

definition jsonCommand :: "PathCommand \<Rightarrow> PathCommand" where
  "jsonCommand c = \<lparr>pc_type = pc_type c, pc_points = map jsonPoint (pc_points c)\<rparr>"

definition jsonPath :: "VectorPath \<Rightarrow> VectorPath" where
  "jsonPath p = \<lparr>vp_commands = map jsonCommand (vp_commands p), vp_closed = vp_closed p\<rparr>"

definition JSON_parse_stringify :: "VectorPath list \<Rightarrow> VectorPath list" where
  "JSON_parse_stringify paths = map jsonPath paths"

section \<open>Shape (src/core/Shape.ts)\<close>

text \<open>
  \<open>s_instance\<close> tells a \<open>Shape\<close> built by the constructor, which has the
  methods of the class, from a plain \<open>ShapeData\<close> object, which has only the
  fields.  The tree below \<open>paths\<close> (paths, commands, points) and the tree
  below a gradient are each kept as one object: the program either shares such
  a tree whole or rebuilds it whole.
\<close>

record Shape =
  s_addr :: addr
  s_instance :: bool
  s_id :: UID
  s_name :: string
  s_paths :: "VectorPath list obj"
  s_stroke :: "StrokeStyle obj option"
  s_fill :: "FillStyle obj option"
  s_transform :: "Transform obj"

text \<open>The constructor's argument, \<^verbatim>\<open>Partial<ShapeData>\<close>: every field may
  be missing.  A missing argument behaves as the argument with no field.\<close>

record ShapeInit =
  i_id :: "UID option"
  i_name :: "string option"
  i_paths :: "VectorPath list obj option"
  i_stroke :: "StrokeStyle obj option"
  i_fill :: "FillStyle obj option"
  i_transform :: "Transform obj option"

definition newShape :: "ShapeInit \<Rightarrow> Runtime \<Rightarrow> Shape \<times> Runtime" where
  "newShape d rt =
     (let a = nextAddr rt;
          rt0 = rt\<lparr>nextAddr := Suc a\<rparr>;
          (sid, rt1) = (case i_id d of Some u \<Rightarrow> (u, rt0) | None \<Rightarrow> generateUID rt0);
          nm = (case i_name d of Some n \<Rightarrow> n | None \<Rightarrow> ''Shape'');
          (ps, rt2) = (case i_paths d of Some p \<Rightarrow> (p, rt1) | None \<Rightarrow> newObj [] rt1);
          (tr, rt3) = (case i_transform d of Some t \<Rightarrow> (t, rt2)
                       | None \<Rightarrow> createDefaultTransform rt2)
      in (\<lparr>s_addr = a, s_instance = True, s_id = sid, s_name = nm, s_paths = ps,
           s_stroke = i_stroke d, s_fill = i_fill d, s_transform = tr\<rparr>, rt3))"

text \<open>
  \<open>clone\<close>: the argument literal is built first (name, the
  \<^verbatim>\<open>JSON.parse(JSON.stringify(...))\<close> copy of the paths, the spread copies of
  stroke, fill and transform), then the constructor runs.  The JSON copy is a
  new tree that holds what JSON gives back of the old one.  A spread copy is a
  new object whose fields hold what the fields of the old one hold: a field
  that is a reference (the colour of a stroke, the colour and the gradient of
  a fill) refers to the same object in the copy.
\<close>

definition spreadOpt :: "'a obj option \<Rightarrow> Runtime \<Rightarrow> 'a obj option \<times> Runtime" where
  "spreadOpt v rt =
     (case v of None \<Rightarrow> (None, rt)
      | Some ob \<Rightarrow> (let (c, rt') = newObj (contents ob) rt in (Some c, rt')))"

definition Shape_clone :: "Shape \<Rightarrow> Runtime \<Rightarrow> Shape \<times> Runtime" where
  "Shape_clone this rt =
     (let (ps, rt1) = newObj (JSON_parse_stringify (contents (s_paths this))) rt;
          (st, rt2) = spreadOpt (s_stroke this) rt1;
          (fi, rt3) = spreadOpt (s_fill this) rt2;
          (tr, rt4) = newObj (contents (s_transform this)) rt3
      in newShape \<lparr>i_id = None, i_name = Some (s_name this @ '' Copy''),
                   i_paths = Some ps, i_stroke = st, i_fill = fi,
                   i_transform = Some tr\<rparr> rt4)"

text \<open>The call \<^verbatim>\<open>s.clone()\<close>: a plain object has no such method.\<close>

definition call_clone :: "Shape \<Rightarrow> Runtime \<Rightarrow> error + Shape \<times> Runtime" where
  "call_clone s rt = (if s_instance s then Inr (Shape_clone s rt) else Inl TypeError)"

text \<open>\<^verbatim>\<open>shapes.map(s => s.clone())\<close>\<close>

fun cloneAll :: "Shape list \<Rightarrow> Runtime \<Rightarrow> error + Shape list \<times> Runtime" where
  "cloneAll [] rt = Inr ([], rt)"
| "cloneAll (s # ss) rt =
     (case call_clone s rt of
        Inl e \<Rightarrow> Inl e
      | Inr (c, rt1) \<Rightarrow>
          (case cloneAll ss rt1 of
             Inl e \<Rightarrow> Inl e
           | Inr (cs, rt2) \<Rightarrow> Inr (c # cs, rt2)))"

text \<open>\<open>toJSON\<close> returns a new plain object whose fields refer to the same
  paths, stroke, fill and transform objects.\<close>

definition Shape_toJSON :: "Shape \<Rightarrow> Runtime \<Rightarrow> Shape \<times> Runtime" where
  "Shape_toJSON this rt =
     (this\<lparr>s_addr := nextAddr rt, s_instance := False\<rparr>, rt\<lparr>nextAddr := Suc (nextAddr rt)\<rparr>)"

text \<open>\<open>Shape.createRectangle\<close>: the array literal of the paths is a new
  object; fill and stroke are the objects passed in.  The corners are sums of
  doubles, which round and can overflow to an infinity; the model does not
  define that addition and takes it as the parameter \<open>addDouble\<close>.\<close>

definition createRectangle ::
    "(number \<Rightarrow> number \<Rightarrow> number) \<Rightarrow> number \<Rightarrow> number \<Rightarrow> number \<Rightarrow> number
      \<Rightarrow> FillStyle obj option \<Rightarrow> StrokeStyle obj option \<Rightarrow> Runtime \<Rightarrow> Shape \<times> Runtime" where
  "createRectangle addDouble px py width height fill stroke rt =
     (let path = \<lparr>vp_commands =
                    [\<lparr>pc_type = MoveTo, pc_points = [\<lparr>pt_x = Some px, pt_y = Some py\<rparr>]\<rparr>,
                     \<lparr>pc_type = LineTo,
                      pc_points = [\<lparr>pt_x = Some (addDouble px width), pt_y = Some py\<rparr>]\<rparr>,
                     \<lparr>pc_type = LineTo,
                      pc_points = [\<lparr>pt_x = Some (addDouble px width),
                                    pt_y = Some (addDouble py height)\<rparr>]\<rparr>,
                     \<lparr>pc_type = LineTo,
                      pc_points = [\<lparr>pt_x = Some px, pt_y = Some (addDouble py height)\<rparr>]\<rparr>,
                     \<lparr>pc_type = ClosePath, pc_points = []\<rparr>],
                  vp_closed = True\<rparr>;
          (ps, rt1) = newObj [path] rt
      in newShape \<lparr>i_id = None, i_name = Some ''Rectangle'', i_paths = Some ps,
                   i_stroke = stroke, i_fill = fill, i_transform = None\<rparr> rt1)"

text \<open>The objects of a shape: those it owns by construction (the shape, its
  paths, stroke, fill and transform objects) and those nested in its stroke
  and fill (colours, gradient).\<close>

definition ownAddrs :: "Shape \<Rightarrow> addr set" where
  "ownAddrs s =
     {s_addr s, addrOf (s_paths s), addrOf (s_transform s)}
     \<union> addrOf ` set_option (s_stroke s) \<union> addrOf ` set_option (s_fill s)"

definition nestedAddrs :: "Shape \<Rightarrow> addr set" where
  "nestedAddrs s =
     (\<lambda>st. addrOf (st_color (contents st))) ` set_option (s_stroke s)
     \<union> (\<Union>fi \<in> set_option (s_fill s).
          addrOf ` set_option (fi_color (contents fi))
          \<union> addrOf ` set_option (fi_gradient (contents fi)))"

text \<open>\<^verbatim>\<open>xs.map(v => v.m())\<close> for a method that may raise.\<close>

fun mapE :: "('a \<Rightarrow> Runtime \<Rightarrow> error + 'b \<times> Runtime) \<Rightarrow> 'a list \<Rightarrow> Runtime
               \<Rightarrow> error + 'b list \<times> Runtime" where
  "mapE m [] rt = Inr ([], rt)"
| "mapE m (v # vs) rt =
     (case m v rt of
        Inl e \<Rightarrow> Inl e
      | Inr (w, rt1) \<Rightarrow>
          (case mapE m vs rt1 of
             Inl e \<Rightarrow> Inl e
           | Inr (ws, rt2) \<Rightarrow> Inr (w # ws, rt2)))"

definition call_Shape_toJSON :: "Shape \<Rightarrow> Runtime \<Rightarrow> error + Shape \<times> Runtime" where
  "call_Shape_toJSON s rt = (if s_instance s then Inr (Shape_toJSON s rt) else Inl TypeError)"

section \<open>Frame (src/core/Frame.ts)\<close>

record Frame =
  f_instance :: bool
  f_id :: UID
  f_index :: int
  isKeyframe :: bool
  isEmpty :: bool
  f_shapes :: "Shape list"
  tweenType :: TweenType
  easing :: "EasingFunction option"
  duration :: real

record FrameInit =
  fn_id :: "UID option"
  fn_index :: "int option"
  fn_isKeyframe :: "bool option"
  fn_isEmpty :: "bool option"
  fn_shapes :: "Shape list option"
  fn_tweenType :: "TweenType option"
  fn_easing :: "EasingFunction option"
  fn_duration :: "real option"

definition newFrame :: "FrameInit \<Rightarrow> Runtime \<Rightarrow> Frame \<times> Runtime" where
  "newFrame d rt =
     (let (fid, rt1) = (case fn_id d of Some u \<Rightarrow> (u, rt) | None \<Rightarrow> generateUID rt);
          sh = (case fn_shapes d of Some v \<Rightarrow> v | None \<Rightarrow> []);
          em = (case fn_isEmpty d of Some b \<Rightarrow> b | None \<Rightarrow> True)
      in (\<lparr>f_instance = True,
           f_id = fid,
           f_index = (case fn_index d of Some i \<Rightarrow> i | None \<Rightarrow> 1),
           isKeyframe = (case fn_isKeyframe d of Some b \<Rightarrow> b | None \<Rightarrow> False),
           isEmpty = (if length sh > 0 then False else em),
           f_shapes = sh,
           tweenType = (case fn_tweenType d of Some t \<Rightarrow> t | None \<Rightarrow> TweenNone),
           easing = fn_easing d,
           duration = (case fn_duration d of Some n \<Rightarrow> n | None \<Rightarrow> 1)\<rparr>, rt1))"

text \<open>The methods of \<open>Frame\<close>, as functions of the receiver.\<close>

definition Frame_addShape :: "Shape \<Rightarrow> Frame \<Rightarrow> Frame" where
  "Frame_addShape shape this = this\<lparr>f_shapes := f_shapes this @ [shape], isEmpty := False\<rparr>"

definition Frame_removeShape :: "UID \<Rightarrow> Frame \<Rightarrow> bool \<times> Frame" where
  "Frame_removeShape shapeId this =
     (case findIndex (\<lambda>s. s_id s = shapeId) (f_shapes this) of
        Some i \<Rightarrow>
          (let sh = removeAt i (f_shapes this)
           in (True, this\<lparr>f_shapes := sh, isEmpty := (length sh = 0)\<rparr>))
      | None \<Rightarrow> (False, this))"

definition Frame_getShape :: "UID \<Rightarrow> Frame \<Rightarrow> Shape option" where
  "Frame_getShape shapeId this = find (\<lambda>s. s_id s = shapeId) (f_shapes this)"

definition Frame_clear :: "Frame \<Rightarrow> Frame" where
  "Frame_clear this = this\<lparr>f_shapes := [], isEmpty := True\<rparr>"

definition Frame_makeKeyframe :: "Frame \<Rightarrow> Frame" where
  "Frame_makeKeyframe this = this\<lparr>isKeyframe := True\<rparr>"

definition Frame_makeBlankKeyframe :: "Frame \<Rightarrow> Frame" where
  "Frame_makeBlankKeyframe this =
     this\<lparr>isKeyframe := True, f_shapes := [], isEmpty := True, tweenType := TweenNone\<rparr>"

definition Frame_setMotionTween :: "EasingFunction option \<Rightarrow> Frame \<Rightarrow> Frame" where
  "Frame_setMotionTween e this =
     (if \<not> isKeyframe this then this
      else this\<lparr>tweenType := TweenMotion,
                easing := Some (case e of Some v \<Rightarrow> v
                                | None \<Rightarrow> \<lparr>ef_type = EaseLinear, ef_strength = None,
                                           ef_customCurve = None\<rparr>)\<rparr>)"

definition Frame_setShapeTween :: "EasingFunction option \<Rightarrow> Frame \<Rightarrow> Frame" where
  "Frame_setShapeTween e this =
     (if \<not> isKeyframe this then this
      else this\<lparr>tweenType := TweenShape,
                easing := Some (case e of Some v \<Rightarrow> v
                                | None \<Rightarrow> \<lparr>ef_type = EaseLinear, ef_strength = None,
                                           ef_customCurve = None\<rparr>)\<rparr>)"

definition Frame_removeTween :: "Frame \<Rightarrow> Frame" where
  "Frame_removeTween this = this\<lparr>tweenType := TweenNone, easing := None\<rparr>"

text \<open>\<open>toJSON\<close> builds a plain object; its shapes are the results of
  \<^verbatim>\<open>s.toJSON()\<close> on each shape.\<close>

definition Frame_toJSON :: "Frame \<Rightarrow> Runtime \<Rightarrow> error + Frame \<times> Runtime" where
  "Frame_toJSON this rt =
     (case mapE call_Shape_toJSON (f_shapes this) rt of
        Inl e \<Rightarrow> Inl e
      | Inr (sh, rt1) \<Rightarrow> Inr (this\<lparr>f_instance := False, f_shapes := sh\<rparr>, rt1))"

definition call_Frame_toJSON :: "Frame \<Rightarrow> Runtime \<Rightarrow> error + Frame \<times> Runtime" where
  "call_Frame_toJSON f rt = (if f_instance f then Frame_toJSON f rt else Inl TypeError)"

section \<open>Layer (src/core/Layer.ts)\<close>

record Layer =
  l_instance :: bool
  l_id :: UID
  l_name :: string
  l_visible :: bool
  l_locked :: bool
  l_frames :: "Frame list"
  l_color :: string

record LayerInit =
  ln_id :: "UID option"
  ln_name :: "string option"
  ln_visible :: "bool option"
  ln_locked :: "bool option"
  ln_frames :: "Frame list option"
  ln_color :: "string option"

definition LAYER_COLORS :: "string list" where
  "LAYER_COLORS = [''#4fc3f7'', ''#81c784'', ''#ffb74d'', ''#f06292'',
                   ''#ba68c8'', ''#4dd0e1'', ''#aed581'', ''#ff8a65'']"

text \<open>The decimal numeral that a template string prints for a counter.\<close>

function showNat :: "nat \<Rightarrow> string" where
  "showNat n =
     (if n < 10 then [''0123456789'' ! n]
      else showNat (n div 10) @ [''0123456789'' ! (n mod 10)])"
  by pat_completeness auto
termination
  by (relation "measure (\<lambda>n. n)") auto

declare showNat.simps [simp del]

definition newLayer :: "LayerInit \<Rightarrow> Runtime \<Rightarrow> Layer \<times> Runtime" where
  "newLayer d rt =
     (let n = Suc (layerCount rt);
          rt0 = rt\<lparr>layerCount := n\<rparr>;
          (lid, rt1) = (case ln_id d of Some u \<Rightarrow> (u, rt0) | None \<Rightarrow> generateUID rt0);
          (fs, rt2) = (case ln_frames d of
                         Some v \<Rightarrow> (v, rt1)
                       | None \<Rightarrow>
                           (let (f, r) = newFrame \<lparr>fn_id = None, fn_index = Some 1,
                                           fn_isKeyframe = Some True, fn_isEmpty = None,
                                           fn_shapes = None, fn_tweenType = None,
                                           fn_easing = None, fn_duration = None\<rparr> rt1
                            in ([f], r)))
      in (\<lparr>l_instance = True,
           l_id = lid,
           l_name = (case ln_name d of Some v \<Rightarrow> v | None \<Rightarrow> ''Layer '' @ showNat n),
           l_visible = (case ln_visible d of Some b \<Rightarrow> b | None \<Rightarrow> True),
           l_locked = (case ln_locked d of Some b \<Rightarrow> b | None \<Rightarrow> False),
           l_frames = fs,
           l_color = (case ln_color d of Some c \<Rightarrow> c
                      | None \<Rightarrow> LAYER_COLORS ! (n mod length LAYER_COLORS))\<rparr>, rt2))"

text \<open>
  A reference to a frame of the layer is its position in \<open>this.frames\<close>; each
  slot of the array holds an object of its own.  \<open>getFrame\<close> returns the first
  frame with the index, \<open>Layer_getFramePos\<close> where it is.
\<close>

definition Layer_getFrame :: "int \<Rightarrow> Layer \<Rightarrow> Frame option" where
  "Layer_getFrame index this = find (\<lambda>f. f_index f = index) (l_frames this)"

definition Layer_getFramePos :: "int \<Rightarrow> Layer \<Rightarrow> nat option" where
  "Layer_getFramePos index this = findIndex (\<lambda>f. f_index f = index) (l_frames this)"

text \<open>
  \<open>getKeyframeAt\<close>: filter, sort by descending index (\<^verbatim>\<open>Array.prototype.sort\<close>
  is stable, as \<open>sort_key\<close> is), take element 0.  The frames are paired with
  their positions so that the position of the result is known as well.
\<close>

definition keyframesUpTo :: "int \<Rightarrow> Layer \<Rightarrow> (nat \<times> Frame) list" where
  "keyframesUpTo index this =
     sort_key (\<lambda>p. - f_index (snd p))
       (filter (\<lambda>p. isKeyframe (snd p) \<and> f_index (snd p) \<le> index)
          (enumerate 0 (l_frames this)))"

definition Layer_getKeyframeAt :: "int \<Rightarrow> Layer \<Rightarrow> Frame option" where
  "Layer_getKeyframeAt index this =
     (case keyframesUpTo index this of [] \<Rightarrow> None | p # _ \<Rightarrow> Some (snd p))"

definition Layer_getKeyframePosAt :: "int \<Rightarrow> Layer \<Rightarrow> nat option" where
  "Layer_getKeyframePosAt index this =
     (case keyframesUpTo index this of [] \<Rightarrow> None | p # _ \<Rightarrow> Some (fst p))"

text \<open>
  \<open>insertKeyframe\<close> returns the frame; the model returns its position in the
  updated layer.  A frame pushed at the end and sorted in by the stable sort
  lands behind every frame whose index is not larger.
\<close>

definition Layer_insertKeyframe ::
    "int \<Rightarrow> Layer \<Rightarrow> Runtime \<Rightarrow> error + nat \<times> Layer \<times> Runtime" where
  "Layer_insertKeyframe index this rt =
     (case Layer_getFramePos index this of
        Some i \<Rightarrow>
          (let frame = l_frames this ! i in
           if \<not> f_instance frame then Inl TypeError
           else
             (let frame1 = Frame_makeKeyframe frame;
                  this1 = this\<lparr>l_frames := (l_frames this)[i := frame1]\<rparr>
              in if isEmpty frame1 then
                   (case Layer_getKeyframeAt (index - 1) this1 of
                      None \<Rightarrow> Inr (i, this1, rt)
                    | Some prevKeyframe \<Rightarrow>
                        if \<not> isEmpty prevKeyframe then
                          (case cloneAll (f_shapes prevKeyframe) rt of
                             Inl e \<Rightarrow> Inl e
                           | Inr (cs, rt1) \<Rightarrow>
                               Inr (i,
                                    this1\<lparr>l_frames :=
                                      (l_frames this1)[i := frame1\<lparr>f_shapes := cs,
                                                                 isEmpty := False\<rparr>]\<rparr>,
                                    rt1))
                        else Inr (i, this1, rt))
                 else Inr (i, this1, rt)))
      | None \<Rightarrow>
          (let prevKeyframe = Layer_getKeyframeAt index this in
           case (case prevKeyframe of
                   None \<Rightarrow> Inr ([], rt)
                 | Some p \<Rightarrow> if \<not> isEmpty p then cloneAll (f_shapes p) rt else Inr ([], rt)) of
             Inl e \<Rightarrow> Inl e
           | Inr (cs, rt1) \<Rightarrow>
               (let (frame, rt2) =
                      newFrame \<lparr>fn_id = None, fn_index = Some index,
                                fn_isKeyframe = Some True,
                                fn_isEmpty = Some (case prevKeyframe of None \<Rightarrow> True
                                                   | Some p \<Rightarrow> isEmpty p),
                                fn_shapes = Some cs, fn_tweenType = None,
                                fn_easing = None, fn_duration = None\<rparr> rt1
                in Inr (length (filter (\<lambda>f. f_index f \<le> index) (l_frames this)),
                        this\<lparr>l_frames := sort_key f_index (l_frames this @ [frame])\<rparr>,
                        rt2))))"

definition Layer_insertBlankKeyframe ::
    "int \<Rightarrow> Layer \<Rightarrow> Runtime \<Rightarrow> error + nat \<times> Layer \<times> Runtime" where
  "Layer_insertBlankKeyframe index this rt =
     (case Layer_getFramePos index this of
        Some i \<Rightarrow>
          (let frame = l_frames this ! i in
           if \<not> f_instance frame then Inl TypeError
           else Inr (i, this\<lparr>l_frames := (l_frames this)[i := Frame_makeBlankKeyframe frame]\<rparr>,
                     rt))
      | None \<Rightarrow>
          (let (frame, rt1) =
                 newFrame \<lparr>fn_id = None, fn_index = Some index, fn_isKeyframe = Some True,
                           fn_isEmpty = Some True, fn_shapes = None, fn_tweenType = None,
                           fn_easing = None, fn_duration = None\<rparr> rt
           in Inr (length (filter (\<lambda>f. f_index f \<le> index) (l_frames this)),
                   this\<lparr>l_frames := sort_key f_index (l_frames this @ [frame])\<rparr>,
                   rt1)))"

definition Layer_clearKeyframe :: "int \<Rightarrow> Layer \<Rightarrow> error + Layer" where
  "Layer_clearKeyframe index this =
     (case Layer_getFramePos index this of
        None \<Rightarrow> Inr this
      | Some i \<Rightarrow>
          (let frame = l_frames this ! i in
           if isKeyframe frame then
             (if index = 1 then
                (if f_instance frame
                 then Inr (this\<lparr>l_frames := (l_frames this)[i := Frame_clear frame]\<rparr>)
                 else Inl TypeError)
              else Inr (this\<lparr>l_frames := removeAt i (l_frames this)\<rparr>))
           else Inr this))"

definition Layer_addShapeAtFrame ::
    "int \<Rightarrow> Shape \<Rightarrow> Layer \<Rightarrow> Runtime \<Rightarrow> error + Layer \<times> Runtime" where
  "Layer_addShapeAtFrame index shape this rt =
     (case (case Layer_getKeyframePosAt index this of
              None \<Rightarrow> Layer_insertKeyframe index this rt
            | Some k \<Rightarrow>
                if f_index (l_frames this ! k) \<noteq> index
                then Layer_insertKeyframe index this rt
                else Inr (k, this, rt)) of
        Inl e \<Rightarrow> Inl e
      | Inr (k, this1, rt1) \<Rightarrow>
          (let keyframe = l_frames this1 ! k in
           if f_instance keyframe
           then Inr (this1\<lparr>l_frames := (l_frames this1)[k := Frame_addShape shape keyframe]\<rparr>,
                     rt1)
           else Inl TypeError))"

definition Layer_getShapesAtFrame :: "int \<Rightarrow> Layer \<Rightarrow> Shape list" where
  "Layer_getShapesAtFrame index this =
     (case Layer_getKeyframeAt index this of Some keyframe \<Rightarrow> f_shapes keyframe | None \<Rightarrow> [])"

definition Layer_toJSON :: "Layer \<Rightarrow> Runtime \<Rightarrow> error + Layer \<times> Runtime" where
  "Layer_toJSON this rt =
     (case mapE call_Frame_toJSON (l_frames this) rt of
        Inl e \<Rightarrow> Inl e
      | Inr (fs, rt1) \<Rightarrow> Inr (this\<lparr>l_instance := False, l_frames := fs\<rparr>, rt1))"

definition call_Layer_toJSON :: "Layer \<Rightarrow> Runtime \<Rightarrow> error + Layer \<times> Runtime" where
  "call_Layer_toJSON l rt = (if l_instance l then Layer_toJSON l rt else Inl TypeError)"

section \<open>Symbol and Library (src/core/Symbol.ts)\<close>

record Symbol =
  sy_instance :: bool
  sy_id :: UID
  sy_name :: string
  sy_type :: SymbolType
  sy_layers :: "Layer list"
  sy_frameCount :: real

record SymbolInit =
  sn_id :: "UID option"
  sn_name :: "string option"
  sn_type :: "SymbolType option"
  sn_layers :: "Layer list option"
  sn_frameCount :: "real option"

definition newSymbol :: "SymbolInit \<Rightarrow> Runtime \<Rightarrow> Symbol \<times> Runtime" where
  "newSymbol d rt =
     (let n = Suc (symbolCount rt);
          rt0 = rt\<lparr>symbolCount := n\<rparr>;
          (yid, rt1) = (case sn_id d of Some u \<Rightarrow> (u, rt0) | None \<Rightarrow> generateUID rt0);
          (ls, rt2) = (case sn_layers d of
                         Some v \<Rightarrow> (v, rt1)
                       | None \<Rightarrow>
                           (let (l, r) = newLayer \<lparr>ln_id = None, ln_name = Some ''Layer 1'',
                                           ln_visible = None, ln_locked = None,
                                           ln_frames = None, ln_color = None\<rparr> rt1
                            in ([l], r)))
      in (\<lparr>sy_instance = True,
           sy_id = yid,
           sy_name = (case sn_name d of Some v \<Rightarrow> v | None \<Rightarrow> ''Symbol '' @ showNat n),
           sy_type = (case sn_type d of Some t \<Rightarrow> t | None \<Rightarrow> Graphic),
           sy_layers = ls,
           sy_frameCount = (case sn_frameCount d of Some c \<Rightarrow> c | None \<Rightarrow> 60)\<rparr>, rt2))"

definition Symbol_toJSON :: "Symbol \<Rightarrow> Runtime \<Rightarrow> error + Symbol \<times> Runtime" where
  "Symbol_toJSON this rt =
     (case mapE call_Layer_toJSON (sy_layers this) rt of
        Inl e \<Rightarrow> Inl e
      | Inr (ls, rt1) \<Rightarrow> Inr (this\<lparr>sy_instance := False, sy_layers := ls\<rparr>, rt1))"

definition call_Symbol_toJSON :: "Symbol \<Rightarrow> Runtime \<Rightarrow> error + Symbol \<times> Runtime" where
  "call_Symbol_toJSON y rt = (if sy_instance y then Symbol_toJSON y rt else Inl TypeError)"

text \<open>The library is a \<^verbatim>\<open>Map\<close> from id to symbol: the entries in insertion
  order; \<^verbatim>\<open>set\<close> on a key that is present replaces the value in place.\<close>

type_synonym Library = "(UID \<times> Symbol) list"

fun Library_addSymbol :: "Symbol \<Rightarrow> Library \<Rightarrow> Library" where
  "Library_addSymbol symbol [] = [(sy_id symbol, symbol)]"
| "Library_addSymbol symbol (e # es) =
     (if fst e = sy_id symbol then (sy_id symbol, symbol) # es
      else e # Library_addSymbol symbol es)"

definition Library_toJSON :: "Library \<Rightarrow> Runtime \<Rightarrow> error + Symbol list \<times> Runtime" where
  "Library_toJSON this rt = mapE call_Symbol_toJSON (map snd this) rt"

section \<open>Document (src/core/Document.ts)\<close>

record DocumentSettings =
  ds_width :: real
  ds_height :: real
  ds_frameRate :: real
  ds_backgroundColor :: Color

text \<open>
  The table of event listeners is left out: the model describes a document
  on which no listener is registered, so that \<open>emit\<close> does nothing.
\<close>

record Document =
  d_id :: UID
  d_name :: string
  d_settings :: DocumentSettings
  d_layers :: "Layer list"
  d_library :: Library
  d_version :: string
  currentFrame :: int
  selectedLayerId :: "UID option"
  selectedShapeIds :: "UID list"

text \<open>\<open>DocumentData\<close>, what \<open>toJSON\<close> returns, and \<^verbatim>\<open>Partial<DocumentData>\<close>,
  what the constructor takes.\<close>

record DocumentData =
  dd_id :: UID
  dd_name :: string
  dd_settings :: DocumentSettings
  dd_layers :: "Layer list"
  dd_library :: "Symbol list"
  dd_version :: string

record DocumentInit =
  dn_id :: "UID option"
  dn_name :: "string option"
  dn_settings :: "DocumentSettings option"
  dn_layers :: "Layer list option"
  dn_library :: "Symbol list option"
  dn_version :: "string option"

text \<open>\<^verbatim>\<open>l instanceof Layer ? l : new Layer(l as any)\<close>: the constructor of
  \<open>Layer\<close> reads the fields of the plain object.\<close>

definition asLayer :: "Layer \<Rightarrow> Runtime \<Rightarrow> Layer \<times> Runtime" where
  "asLayer l rt =
     (if l_instance l then (l, rt)
      else newLayer \<lparr>ln_id = Some (l_id l), ln_name = Some (l_name l),
                     ln_visible = Some (l_visible l), ln_locked = Some (l_locked l),
                     ln_frames = Some (l_frames l), ln_color = Some (l_color l)\<rparr> rt)"

fun asLayers :: "Layer list \<Rightarrow> Runtime \<Rightarrow> Layer list \<times> Runtime" where
  "asLayers [] rt = ([], rt)"
| "asLayers (l # ls) rt =
     (let (l', rt1) = asLayer l rt; (ls', rt2) = asLayers ls rt1 in (l' # ls', rt2))"

text \<open>\<^verbatim>\<open>new Symbol(symbolData as any)\<close> for each entry of \<open>data.library\<close>.\<close>

fun loadLibrary :: "Symbol list \<Rightarrow> Library \<Rightarrow> Runtime \<Rightarrow> Library \<times> Runtime" where
  "loadLibrary [] lib rt = (lib, rt)"
| "loadLibrary (y # ys) lib rt =
     (let (symbol, rt1) =
            newSymbol \<lparr>sn_id = Some (sy_id y), sn_name = Some (sy_name y),
                       sn_type = Some (sy_type y), sn_layers = Some (sy_layers y),
                       sn_frameCount = Some (sy_frameCount y)\<rparr> rt
      in loadLibrary ys (Library_addSymbol symbol lib) rt1)"

text \<open>The constructor.  The default background is \<^verbatim>\<open>hexToColor('#ffffff')\<close>,
  white with alpha 1.  The field \<open>version\<close> keeps its initial value: the
  constructor does not read \<open>data.version\<close>.\<close>

definition newDocument :: "DocumentInit \<Rightarrow> Runtime \<Rightarrow> Document \<times> Runtime" where
  "newDocument d rt =
     (let (did, rt1) = (case dn_id d of Some u \<Rightarrow> (u, rt) | None \<Rightarrow> generateUID rt);
          (ls, sel, rt2) =
            (case dn_layers d of
               Some v \<Rightarrow> (let (ls', r) = asLayers v rt1 in (ls', None, r))
             | None \<Rightarrow>
                 (let (initialLayer, r) =
                        newLayer \<lparr>ln_id = None, ln_name = Some ''Layer 1'', ln_visible = None,
                                  ln_locked = None, ln_frames = None, ln_color = None\<rparr> rt1
                  in ([initialLayer], Some (l_id initialLayer), r)));
          (lib, rt3) = (case dn_library d of
                          Some ys \<Rightarrow> loadLibrary ys [] rt2
                        | None \<Rightarrow> ([], rt2))
      in (\<lparr>d_id = did,
           d_name = (case dn_name d of Some v \<Rightarrow> v | None \<Rightarrow> ''Untitled''),
           d_settings = (case dn_settings d of
                           Some v \<Rightarrow> v
                         | None \<Rightarrow> \<lparr>ds_width = 800, ds_height = 600, ds_frameRate = 24,
                                    ds_backgroundColor =
                                      \<lparr>col_r = 255, col_g = 255, col_b = 255, col_a = 1\<rparr>\<rparr>),
           d_layers = ls,
           d_library = lib,
           d_version = ''0.1.0'',
           currentFrame = 1,
           selectedLayerId = sel,
           selectedShapeIds = []\<rparr>, rt3))"

definition Document_getLayerPos :: "UID \<Rightarrow> Document \<Rightarrow> nat option" where
  "Document_getLayerPos layerId this = findIndex (\<lambda>l. l_id l = layerId) (d_layers this)"

text \<open>\<open>addLayer\<close> puts the new layer at the top (position 0) and selects it.
  A missing \<open>name\<close> reaches the constructor of \<open>Layer\<close> as a missing field.\<close>

definition Document_addLayer :: "string option \<Rightarrow> Document \<Rightarrow> Runtime \<Rightarrow> Layer \<times> Document \<times> Runtime" where
  "Document_addLayer name this rt =
     (let (layer, rt1) = newLayer \<lparr>ln_id = None, ln_name = name, ln_visible = None,
                                  ln_locked = None, ln_frames = None, ln_color = None\<rparr> rt
      in (layer, this\<lparr>d_layers := layer # d_layers this, selectedLayerId := Some (l_id layer)\<rparr>,
          rt1))"

text \<open>The selection is a \<^verbatim>\<open>Set\<close>: the ids in insertion order, none twice.\<close>

definition Document_selectShape :: "UID \<Rightarrow> bool \<Rightarrow> Document \<Rightarrow> Document" where
  "Document_selectShape shapeId addToSelection this =
     (let sel = (if \<not> addToSelection then [] else selectedShapeIds this)
      in this\<lparr>selectedShapeIds := (if shapeId \<in> set sel then sel else sel @ [shapeId])\<rparr>)"

definition Document_deselectShape :: "UID \<Rightarrow> Document \<Rightarrow> Document" where
  "Document_deselectShape shapeId this =
     this\<lparr>selectedShapeIds := filter (\<lambda>u. u \<noteq> shapeId) (selectedShapeIds this)\<rparr>"

definition Document_clearSelection :: "Document \<Rightarrow> Document" where
  "Document_clearSelection this = this\<lparr>selectedShapeIds := []\<rparr>"

text \<open>
  \<open>getVisibleShapes\<close>: the loop runs from the last layer to the first and
  appends the entries of each visible layer.  \<open>visible\<close> is a field and is
  read on any object; \<open>getShapesAtFrame\<close> is a method.
\<close>

definition layerEntries :: "int \<Rightarrow> Layer \<Rightarrow> error + (Shape \<times> UID) list" where
  "layerEntries frame layer =
     (if \<not> l_visible layer then Inr []
      else if \<not> l_instance layer then Inl TypeError
      else Inr (map (\<lambda>shape. (shape, l_id layer)) (Layer_getShapesAtFrame frame layer)))"

fun visibleLoop :: "int \<Rightarrow> Layer list \<Rightarrow> (Shape \<times> UID) list \<Rightarrow> error + (Shape \<times> UID) list" where
  "visibleLoop frame [] result = Inr result"
| "visibleLoop frame (layer # ls) result =
     (case layerEntries frame layer of
        Inl e \<Rightarrow> Inl e
      | Inr es \<Rightarrow> visibleLoop frame ls (result @ es))"

definition Document_getVisibleShapes :: "Document \<Rightarrow> error + (Shape \<times> UID) list" where
  "Document_getVisibleShapes this = visibleLoop (currentFrame this) (rev (d_layers this)) []"

definition Document_toJSON :: "Document \<Rightarrow> Runtime \<Rightarrow> error + DocumentData \<times> Runtime" where
  "Document_toJSON this rt =
     (case mapE call_Layer_toJSON (d_layers this) rt of
        Inl e \<Rightarrow> Inl e
      | Inr (ls, rt1) \<Rightarrow>
          (case Library_toJSON (d_library this) rt1 of
             Inl e \<Rightarrow> Inl e
           | Inr (ys, rt2) \<Rightarrow>
               Inr (\<lparr>dd_id = d_id this, dd_name = d_name this,
                     dd_settings = d_settings this, dd_layers = ls,
                     dd_library = ys, dd_version = d_version this\<rparr>, rt2)))"

text \<open>\<open>fromJSON\<close> on a \<open>DocumentData\<close> object (a string is parsed into one
  first).\<close>

definition Document_fromJSON :: "DocumentData \<Rightarrow> Runtime \<Rightarrow> Document \<times> Runtime" where
  "Document_fromJSON json rt =
     newDocument \<lparr>dn_id = Some (dd_id json), dn_name = Some (dd_name json),
                  dn_settings = Some (dd_settings json), dn_layers = Some (dd_layers json),
                  dn_library = Some (dd_library json),
                  dn_version = Some (dd_version json)\<rparr> rt"

section \<open>Tween engine (src/core/Tween.ts)\<close>

text \<open>
  Every numeric constant of the easing functions (0.5, 0.75, 0.9375, 0.984375,
  7.5625, 2.75, ...) is a finite decimal, and the model computes with it
  exactly.
\<close>

subsection \<open>Easing functions\<close>

definition linear :: "real \<Rightarrow> real" where
  "linear t = t"

definition easeIn :: "real \<Rightarrow> real" where
  "easeIn t = t * t"

definition easeOut :: "real \<Rightarrow> real" where
  "easeOut t = t * (2 - t)"

definition easeInOut :: "real \<Rightarrow> real" where
  "easeInOut t = (if t < 0.5 then 2 * t * t else - 1 + (4 - 2 * t) * t)"

definition easeInCubic :: "real \<Rightarrow> real" where
  "easeInCubic t = t * t * t"

definition easeOutCubic :: "real \<Rightarrow> real" where
  "easeOutCubic t = (let t1 = t - 1 in t1 * t1 * t1 + 1)"

definition easeInOutCubic :: "real \<Rightarrow> real" where
  "easeInOutCubic t = (if t < 0.5 then 4 * t * t * t else 1 - (- 2 * t + 2) ^ 3 / 2)"

definition elasticOut :: "real \<Rightarrow> real" where
  "elasticOut t =
     (let c4 = (2 * pi) / 3
      in if t = 0 then 0
         else if t = 1 then 1
         else 2 powr (- 10 * t) * sin ((t * 10 - 0.75) * c4) + 1)"

text \<open>
  In \<open>bounceOut\<close> the source writes \<^verbatim>\<open>n1 * (t -= 1.5 / d1) * t + 0.75\<close>: the
  assignment happens first and both factors read the decremented \<open>t\<close>.
\<close>

definition bounceOut :: "real \<Rightarrow> real" where
  "bounceOut t =
     (let n1 = 7.5625; d1 = 2.75
      in if t < 1 / d1 then n1 * t * t
         else if t < 2 / d1 then (let t' = t - 1.5 / d1 in n1 * t' * t' + 0.75)
         else if t < 2.5 / d1 then (let t' = t - 2.25 / d1 in n1 * t' * t' + 0.9375)
         else (let t' = t - 2.625 / d1 in n1 * t' * t' + 0.984375))"

subsection \<open>Interpolation\<close>

definition lerp :: "real \<Rightarrow> real \<Rightarrow> real \<Rightarrow> real" where
  "lerp a b t = a + (b - a) * t"

text \<open>The two \<^verbatim>\<open>while\<close> loops of \<open>lerpAngle\<close>, one recursive function each.\<close>

function wrapDown :: "real \<Rightarrow> real" where
  "wrapDown diff = (if diff > 180 then wrapDown (diff - 360) else diff)"
  by pat_completeness auto
termination
proof (relation "measure (\<lambda>d. nat \<lceil>(d - 180) / 360\<rceil>)")
  show "wf (measure (\<lambda>d. nat \<lceil>(d - 180) / 360\<rceil>))" by simp
next
  fix diff :: real
  assume gt: "180 < diff"
  have step: "(diff - 360 - 180) / 360 = (diff - 180) / 360 - 1"
    by (simp add: field_simps)
  have pos: "0 < \<lceil>(diff - 180) / 360\<rceil>"
    using gt by (simp add: ceiling_less_iff)
  have "\<lceil>(diff - 360 - 180) / 360\<rceil> = \<lceil>(diff - 180) / 360\<rceil> - 1"
    unfolding step by simp
  with pos show "(diff - 360, diff) \<in> measure (\<lambda>d. nat \<lceil>(d - 180) / 360\<rceil>)"
    by simp
qed

function wrapUp :: "real \<Rightarrow> real" where
  "wrapUp diff = (if diff < - 180 then wrapUp (diff + 360) else diff)"
  by pat_completeness auto
termination
proof (relation "measure (\<lambda>d. nat \<lceil>(- 180 - d) / 360\<rceil>)")
  show "wf (measure (\<lambda>d. nat \<lceil>(- 180 - d) / 360\<rceil>))" by simp
next
  fix diff :: real
  assume lt: "diff < - 180"
  have step: "(- 180 - (diff + 360)) / 360 = (- 180 - diff) / 360 - 1"
    by (simp add: field_simps)
  have pos: "0 < \<lceil>(- 180 - diff) / 360\<rceil>"
    using lt by (simp add: ceiling_less_iff)
  have "\<lceil>(- 180 - (diff + 360)) / 360\<rceil> = \<lceil>(- 180 - diff) / 360\<rceil> - 1"
    unfolding step by simp
  with pos show "(diff + 360, diff) \<in> measure (\<lambda>d. nat \<lceil>(- 180 - d) / 360\<rceil>)"
    by simp
qed

declare wrapDown.simps [simp del] wrapUp.simps [simp del]

definition lerpAngle :: "real \<Rightarrow> real \<Rightarrow> real \<Rightarrow> real" where
  "lerpAngle a b t = (let diff = wrapUp (wrapDown (b - a)) in a + diff * t)"

text \<open>\<open>canMotionTween\<close>: the loop with its early \<^verbatim>\<open>return true\<close> is an
  existential over the start shapes, \<^verbatim>\<open>some\<close> one over the end shapes.\<close>

definition canMotionTween :: "Shape list \<Rightarrow> Shape list \<Rightarrow> bool" where
  "canMotionTween startShapes endShapes =
     (if length startShapes = 0 \<or> length endShapes = 0 then False
      else if list_ex (\<lambda>startShape. list_ex (\<lambda>s. s_id s = s_id startShape) endShapes)
                startShapes
      then True
      else length startShapes = 1 \<and> length endShapes = 1)"

section \<open>History (src/core/History.ts)\<close>

text \<open>
  A command is an object with the methods \<open>execute\<close> and \<open>undo\<close>; both act
  on the world outside the history manager (the document and the runtime) and
  may update the fields of the command itself.  The history manager works
  with any implementation of that interface, so the model takes the
  implementation as a parameter: \<open>'c\<close> is the state of a command object, \<open>'w\<close>
  the world.  Each entry of a stack is a command object of its own.
\<close>

record ('c, 'w) CommandImpl =
  cmd_execute :: "'c \<Rightarrow> 'w \<Rightarrow> error + 'c \<times> 'w"
  cmd_undo :: "'c \<Rightarrow> 'w \<Rightarrow> error + 'c \<times> 'w"

record 'c HistoryManager =
  undoStack :: "'c list"
  redoStack :: "'c list"
  maxHistory :: nat
  isExecuting :: bool

definition newHistoryManager :: "'c HistoryManager" where
  "newHistoryManager = \<lparr>undoStack = [], redoStack = [], maxHistory = 100, isExecuting = False\<rparr>"

text \<open>
  \<open>execute\<close>: \<open>isExecuting\<close> is set while the command runs and reset by the
  \<^verbatim>\<open>finally\<close> block; an exception of the command leaves \<open>execute\<close> before
  anything is pushed.
\<close>

definition HistoryManager_execute ::
    "('c, 'w) CommandImpl \<Rightarrow> 'c \<Rightarrow> 'c HistoryManager \<Rightarrow> 'w \<Rightarrow> error + 'c HistoryManager \<times> 'w" where
  "HistoryManager_execute impl command this w =
     (if isExecuting this then Inr (this, w)
      else
        (case cmd_execute impl command w of
           Inl e \<Rightarrow> Inl e
         | Inr (command', w') \<Rightarrow>
             (let us = undoStack this @ [command']
              in Inr (this\<lparr>undoStack := (if length us > maxHistory this then tl us else us),
                            redoStack := [],
                            isExecuting := False\<rparr>, w'))))"

definition HistoryManager_undo ::
    "('c, 'w) CommandImpl \<Rightarrow> 'c HistoryManager \<Rightarrow> 'w \<Rightarrow> error + bool \<times> 'c HistoryManager \<times> 'w" where
  "HistoryManager_undo impl this w =
     (if length (undoStack this) = 0 then Inr (False, this, w)
      else if isExecuting this then Inr (False, this, w)
      else
        (case cmd_undo impl (last (undoStack this)) w of
           Inl e \<Rightarrow> Inl e
         | Inr (command', w') \<Rightarrow>
             Inr (True,
                  this\<lparr>undoStack := butlast (undoStack this),
                        redoStack := redoStack this @ [command'],
                        isExecuting := False\<rparr>, w')))"

definition HistoryManager_redo ::
    "('c, 'w) CommandImpl \<Rightarrow> 'c HistoryManager \<Rightarrow> 'w \<Rightarrow> error + bool \<times> 'c HistoryManager \<times> 'w" where
  "HistoryManager_redo impl this w =
     (if length (redoStack this) = 0 then Inr (False, this, w)
      else if isExecuting this then Inr (False, this, w)
      else
        (case cmd_execute impl (last (redoStack this)) w of
           Inl e \<Rightarrow> Inl e
         | Inr (command', w') \<Rightarrow>
             Inr (True,
                  this\<lparr>undoStack := undoStack this @ [command'],
                        redoStack := butlast (redoStack this),
                        isExecuting := False\<rparr>, w')))"

text \<open>\<^verbatim>\<open>while (this.undoStack.length > this.maxHistory) this.undoStack.shift()\<close>\<close>

fun shiftWhileOver :: "nat \<Rightarrow> 'c list \<Rightarrow> 'c list" where
  "shiftWhileOver m [] = []"
| "shiftWhileOver m (c # cs) = (if length (c # cs) > m then shiftWhileOver m cs else c # cs)"

definition HistoryManager_setMaxHistory :: "int \<Rightarrow> 'c HistoryManager \<Rightarrow> 'c HistoryManager" where
  "HistoryManager_setMaxHistory mx this =
     (let m = nat (max 1 mx)
      in this\<lparr>maxHistory := m, undoStack := shiftWhileOver m (undoStack this)\<rparr>)"

subsection \<open>Commands\<close>

text \<open>
  Three of the commands of the file: adding a shape, removing shapes, setting
  a tween.  The constructor arguments come first, the fields that \<open>execute\<close>
  fills in after them.
\<close>

datatype Command =
    AddShapeCommand UID int Shape
  | RemoveShapesCommand "UID list" "(UID \<times> int \<times> Shape) list"
  | SetTweenCommand UID int TweenType "EasingFunction option" TweenType "EasingFunction option"

type_synonym World = "Document \<times> Runtime"

definition setLayer :: "nat \<Rightarrow> Layer \<Rightarrow> Document \<Rightarrow> Document" where
  "setLayer i layer doc = doc\<lparr>d_layers := (d_layers doc)[i := layer]\<rparr>"

definition setFrame :: "nat \<Rightarrow> Frame \<Rightarrow> Layer \<Rightarrow> Layer" where
  "setFrame k frame layer = layer\<lparr>l_frames := (l_frames layer)[k := frame]\<rparr>"

definition AddShapeCommand_execute :: "UID \<Rightarrow> int \<Rightarrow> Shape \<Rightarrow> World \<Rightarrow> error + World" where
  "AddShapeCommand_execute layerId frameIndex shape w =
     (case w of (doc, rt) \<Rightarrow>
      (case Document_getLayerPos layerId doc of
         None \<Rightarrow> Inr (doc, rt)
       | Some i \<Rightarrow>
           (let layer = d_layers doc ! i in
            if \<not> l_instance layer then Inl TypeError
            else
              (case Layer_addShapeAtFrame frameIndex shape layer rt of
                 Inl e \<Rightarrow> Inl e
               | Inr (layer', rt') \<Rightarrow>
                   Inr (Document_selectShape (s_id shape) False (setLayer i layer' doc), rt')))))"

definition AddShapeCommand_undo :: "UID \<Rightarrow> int \<Rightarrow> Shape \<Rightarrow> World \<Rightarrow> error + World" where
  "AddShapeCommand_undo layerId frameIndex shape w =
     (case w of (doc, rt) \<Rightarrow>
      (case Document_getLayerPos layerId doc of
         None \<Rightarrow> Inr (doc, rt)
       | Some i \<Rightarrow>
           (let layer = d_layers doc ! i in
            if \<not> l_instance layer then Inl TypeError
            else
              (case Layer_getKeyframePosAt frameIndex layer of
                 None \<Rightarrow> Inr (Document_deselectShape (s_id shape) doc, rt)
               | Some k \<Rightarrow>
                   (let keyframe = l_frames layer ! k in
                    if \<not> f_instance keyframe then Inl TypeError
                    else
                      Inr (Document_deselectShape (s_id shape)
                             (setLayer i
                                (setFrame k (snd (Frame_removeShape (s_id shape) keyframe)) layer)
                                doc), rt))))))"

text \<open>\<open>RemoveShapesCommand.execute\<close>: the inner loop over \<open>shapeIds\<close> on the
  keyframe of one layer, and the outer loop over the layers.\<close>

fun removeIds ::
    "UID \<Rightarrow> UID list \<Rightarrow> Frame \<Rightarrow> (UID \<times> int \<times> Shape) list \<Rightarrow> Runtime
      \<Rightarrow> error + Frame \<times> (UID \<times> int \<times> Shape) list \<times> Runtime" where
  "removeIds layerId [] keyframe removed rt = Inr (keyframe, removed, rt)"
| "removeIds layerId (shapeId # ids) keyframe removed rt =
     (if \<not> f_instance keyframe then Inl TypeError
      else
        (case Frame_getShape shapeId keyframe of
           None \<Rightarrow> removeIds layerId ids keyframe removed rt
         | Some shape \<Rightarrow>
             (case call_clone shape rt of
                Inl e \<Rightarrow> Inl e
              | Inr (c, rt1) \<Rightarrow>
                  removeIds layerId ids (snd (Frame_removeShape shapeId keyframe))
                    (removed @ [(layerId, f_index keyframe, c)]) rt1)))"

fun removeFromLayers ::
    "UID list \<Rightarrow> int \<Rightarrow> Layer list \<Rightarrow> (UID \<times> int \<times> Shape) list \<Rightarrow> Runtime
      \<Rightarrow> error + Layer list \<times> (UID \<times> int \<times> Shape) list \<times> Runtime" where
  "removeFromLayers shapeIds frameIndex [] removed rt = Inr ([], removed, rt)"
| "removeFromLayers shapeIds frameIndex (layer # ls) removed rt =
     (if \<not> l_instance layer then Inl TypeError
      else
        (case (case Layer_getKeyframePosAt frameIndex layer of
                 None \<Rightarrow> Inr (layer, removed, rt)
               | Some k \<Rightarrow>
                   (case removeIds (l_id layer) shapeIds (l_frames layer ! k) removed rt of
                      Inl e \<Rightarrow> Inl e
                    | Inr (keyframe', removed1, rt1) \<Rightarrow>
                        Inr (setFrame k keyframe' layer, removed1, rt1))) of
           Inl e \<Rightarrow> Inl e
         | Inr (layer', removed1, rt1) \<Rightarrow>
             (case removeFromLayers shapeIds frameIndex ls removed1 rt1 of
                Inl e \<Rightarrow> Inl e
              | Inr (ls', removed2, rt2) \<Rightarrow> Inr (layer' # ls', removed2, rt2))))"

definition RemoveShapesCommand_execute ::
    "UID list \<Rightarrow> World \<Rightarrow> error + (UID \<times> int \<times> Shape) list \<times> World" where
  "RemoveShapesCommand_execute shapeIds w =
     (case w of (doc, rt) \<Rightarrow>
      (case removeFromLayers shapeIds (currentFrame doc) (d_layers doc) [] rt of
         Inl e \<Rightarrow> Inl e
       | Inr (ls, removed, rt1) \<Rightarrow>
           Inr (removed, Document_clearSelection (doc\<lparr>d_layers := ls\<rparr>), rt1)))"

text \<open>\<open>RemoveShapesCommand.undo\<close>: for each removed shape,
  \<^verbatim>\<open>keyframe.addShape(shape.clone())\<close> on the keyframe in effect at its frame.\<close>

fun RemoveShapesCommand_undo :: "(UID \<times> int \<times> Shape) list \<Rightarrow> World \<Rightarrow> error + World" where
  "RemoveShapesCommand_undo [] w = Inr w"
| "RemoveShapesCommand_undo ((layerId, frameIndex, shape) # rest) (doc, rt) =
     (case Document_getLayerPos layerId doc of
        None \<Rightarrow> RemoveShapesCommand_undo rest (doc, rt)
      | Some i \<Rightarrow>
          (let layer = d_layers doc ! i in
           if \<not> l_instance layer then Inl TypeError
           else
             (case Layer_getKeyframePosAt frameIndex layer of
                None \<Rightarrow> RemoveShapesCommand_undo rest (doc, rt)
              | Some k \<Rightarrow>
                  (case call_clone shape rt of
                     Inl e \<Rightarrow> Inl e
                   | Inr (c, rt1) \<Rightarrow>
                       (let keyframe = l_frames layer ! k in
                        if \<not> f_instance keyframe then Inl TypeError
                        else
                          RemoveShapesCommand_undo rest
                            (setLayer i (setFrame k (Frame_addShape c keyframe) layer) doc,
                             rt1))))))"

definition applyTween :: "TweenType \<Rightarrow> EasingFunction option \<Rightarrow> Frame \<Rightarrow> Frame" where
  "applyTween t e frame =
     (case t of
        TweenNone \<Rightarrow> Frame_removeTween frame
      | TweenMotion \<Rightarrow> Frame_setMotionTween e frame
      | TweenShape \<Rightarrow> Frame_setShapeTween e frame)"

text \<open>\<open>SetTweenCommand\<close>: \<open>execute\<close> returns the previous tween type and
  easing that it stored, when it got as far as storing them.\<close>

definition SetTweenCommand_execute ::
    "UID \<Rightarrow> int \<Rightarrow> TweenType \<Rightarrow> EasingFunction option \<Rightarrow> World
      \<Rightarrow> error + (TweenType \<times> EasingFunction option) option \<times> World" where
  "SetTweenCommand_execute layerId frameIndex t e w =
     (case w of (doc, rt) \<Rightarrow>
      (case Document_getLayerPos layerId doc of
         None \<Rightarrow> Inr (None, doc, rt)
       | Some i \<Rightarrow>
           (let layer = d_layers doc ! i in
            if \<not> l_instance layer then Inl TypeError
            else
              (case Layer_getFramePos frameIndex layer of
                 None \<Rightarrow> Inr (None, doc, rt)
               | Some k \<Rightarrow>
                   (let frame = l_frames layer ! k in
                    if \<not> isKeyframe frame then Inr (None, doc, rt)
                    else if \<not> f_instance frame then Inl TypeError
                    else Inr (Some (tweenType frame, easing frame),
                              setLayer i (setFrame k (applyTween t e frame) layer) doc, rt))))))"

definition SetTweenCommand_undo ::
    "UID \<Rightarrow> int \<Rightarrow> TweenType \<Rightarrow> EasingFunction option \<Rightarrow> World \<Rightarrow> error + World" where
  "SetTweenCommand_undo layerId frameIndex previousTweenType previousEasing w =
     (case w of (doc, rt) \<Rightarrow>
      (case Document_getLayerPos layerId doc of
         None \<Rightarrow> Inr (doc, rt)
       | Some i \<Rightarrow>
           (let layer = d_layers doc ! i in
            if \<not> l_instance layer then Inl TypeError
            else
              (case Layer_getFramePos frameIndex layer of
                 None \<Rightarrow> Inr (doc, rt)
               | Some k \<Rightarrow>
                   (let frame = l_frames layer ! k in
                    if \<not> isKeyframe frame then Inr (doc, rt)
                    else if \<not> f_instance frame then Inl TypeError
                    else Inr (setLayer i
                                (setFrame k (applyTween previousTweenType previousEasing frame)
                                   layer) doc, rt))))))"

fun Command_execute :: "Command \<Rightarrow> World \<Rightarrow> error + Command \<times> World" where
  "Command_execute (AddShapeCommand layerId frameIndex shape) w =
     (case AddShapeCommand_execute layerId frameIndex shape w of
        Inl e \<Rightarrow> Inl e
      | Inr w' \<Rightarrow> Inr (AddShapeCommand layerId frameIndex shape, w'))"
| "Command_execute (RemoveShapesCommand shapeIds removedShapes) w =
     (case RemoveShapesCommand_execute shapeIds w of
        Inl e \<Rightarrow> Inl e
      | Inr (removed, w') \<Rightarrow> Inr (RemoveShapesCommand shapeIds removed, w'))"
| "Command_execute (SetTweenCommand layerId frameIndex t e pt pe) w =
     (case SetTweenCommand_execute layerId frameIndex t e w of
        Inl e' \<Rightarrow> Inl e'
      | Inr (None, w') \<Rightarrow> Inr (SetTweenCommand layerId frameIndex t e pt pe, w')
      | Inr (Some (pt', pe'), w') \<Rightarrow> Inr (SetTweenCommand layerId frameIndex t e pt' pe', w'))"

fun Command_undo :: "Command \<Rightarrow> World \<Rightarrow> error + Command \<times> World" where
  "Command_undo (AddShapeCommand layerId frameIndex shape) w =
     (case AddShapeCommand_undo layerId frameIndex shape w of
        Inl e \<Rightarrow> Inl e
      | Inr w' \<Rightarrow> Inr (AddShapeCommand layerId frameIndex shape, w'))"
| "Command_undo (RemoveShapesCommand shapeIds removedShapes) w =
     (case RemoveShapesCommand_undo removedShapes w of
        Inl e \<Rightarrow> Inl e
      | Inr w' \<Rightarrow> Inr (RemoveShapesCommand shapeIds removedShapes, w'))"
| "Command_undo (SetTweenCommand layerId frameIndex t e pt pe) w =
     (case SetTweenCommand_undo layerId frameIndex pt pe w of
        Inl e' \<Rightarrow> Inl e'
      | Inr w' \<Rightarrow> Inr (SetTweenCommand layerId frameIndex t e pt pe, w'))"

definition commands :: "(Command, World) CommandImpl" where
  "commands = \<lparr>cmd_execute = Command_execute, cmd_undo = Command_undo\<rparr>"

subsection \<open>Running several operations\<close>

text \<open>Executing a list of commands through the history manager, and calling
  \<open>undo\<close> or \<open>redo\<close> a number of times; the latter two collect the returned
  booleans.\<close>

fun executeAll ::
    "('c, 'w) CommandImpl \<Rightarrow> 'c list \<Rightarrow> 'c HistoryManager \<Rightarrow> 'w \<Rightarrow> error + 'c HistoryManager \<times> 'w" where
  "executeAll impl [] h w = Inr (h, w)"
| "executeAll impl (c # cs) h w =
     (case HistoryManager_execute impl c h w of
        Inl e \<Rightarrow> Inl e
      | Inr (h', w') \<Rightarrow> executeAll impl cs h' w')"

fun undoTimes ::
    "('c, 'w) CommandImpl \<Rightarrow> nat \<Rightarrow> 'c HistoryManager \<Rightarrow> 'w
      \<Rightarrow> error + bool list \<times> 'c HistoryManager \<times> 'w" where
  "undoTimes impl 0 h w = Inr ([], h, w)"
| "undoTimes impl (Suc n) h w =
     (case HistoryManager_undo impl h w of
        Inl e \<Rightarrow> Inl e
      | Inr (b, h', w') \<Rightarrow>
          (case undoTimes impl n h' w' of
             Inl e \<Rightarrow> Inl e
           | Inr (bs, h'', w'') \<Rightarrow> Inr (b # bs, h'', w'')))"

fun redoTimes ::
    "('c, 'w) CommandImpl \<Rightarrow> nat \<Rightarrow> 'c HistoryManager \<Rightarrow> 'w
      \<Rightarrow> error + bool list \<times> 'c HistoryManager \<times> 'w" where
  "redoTimes impl 0 h w = Inr ([], h, w)"
| "redoTimes impl (Suc n) h w =
     (case HistoryManager_redo impl h w of
        Inl e \<Rightarrow> Inl e
      | Inr (b, h', w') \<Rightarrow>
          (case redoTimes impl n h' w' of
             Inl e \<Rightarrow> Inl e
           | Inr (bs, h'', w'') \<Rightarrow> Inr (b # bs, h'', w'')))"

text \<open>The commands themselves, run in order on the world: the command objects
  as \<open>execute\<close> left them, and the world reached.\<close>

fun runCommands :: "('c, 'w) CommandImpl \<Rightarrow> 'c list \<Rightarrow> 'w \<Rightarrow> error + 'c list \<times> 'w" where
  "runCommands impl [] w = Inr ([], w)"
| "runCommands impl (c # cs) w =
     (case cmd_execute impl c w of
        Inl e \<Rightarrow> Inl e
      | Inr (c', w') \<Rightarrow>
          (case runCommands impl cs w' of
             Inl e \<Rightarrow> Inl e
           | Inr (cs', w'') \<Rightarrow> Inr (c' # cs', w'')))"


text \<open>Every command of the list executes, and its \<open>undo\<close>, run right after
  it, gives back the world in which it was executed.\<close>

fun undoInverts :: "('c, 'w) CommandImpl \<Rightarrow> 'c list \<Rightarrow> 'w \<Rightarrow> bool" where
  "undoInverts impl [] w = True"
| "undoInverts impl (c # cs) w =
     (case cmd_execute impl c w of
        Inl e \<Rightarrow> False
      | Inr (c', w') \<Rightarrow>
          (case cmd_undo impl c' w' of
             Inl e \<Rightarrow> False
           | Inr (c'', w'') \<Rightarrow> w'' = w \<and> undoInverts impl cs w'))"

section \<open>Predicates and example data used in the statements\<close>

text \<open>Frame 1 exists and is a keyframe: \<open>getFrame(1)\<close> returns a keyframe.\<close>

definition frameOneIsKeyframe :: "Layer \<Rightarrow> bool" where
  "frameOneIsKeyframe layer =
     (case Layer_getFrame 1 layer of Some f \<Rightarrow> isKeyframe f | None \<Rightarrow> False)"

text \<open>
  Position \<open>k\<close> of the frame list holds the keyframe in effect at \<open>index\<close>: a
  keyframe at or before \<open>index\<close> such that no keyframe at or before \<open>index\<close>
  has a larger frame index, and none with the same frame index stands earlier
  in the list.
\<close>

definition governs :: "int \<Rightarrow> Frame list \<Rightarrow> nat \<Rightarrow> bool" where
  "governs index fs k \<longleftrightarrow>
     k < length fs \<and> isKeyframe (fs ! k) \<and> f_index (fs ! k) \<le> index \<and>
     (\<forall>j<length fs. isKeyframe (fs ! j) \<and> f_index (fs ! j) \<le> index \<longrightarrow>
        f_index (fs ! j) \<le> f_index (fs ! k) \<and>
        (f_index (fs ! j) = f_index (fs ! k) \<longrightarrow> k \<le> j))"

text \<open>
  The coordinates that JSON gives back as they are: the finite numbers other
  than the negative zero, and \<^verbatim>\<open>null\<close>.
\<close>

definition keptByJSON :: "number option \<Rightarrow> bool" where
  "keptByJSON v = (case v of None \<Rightarrow> True | Some (Finite r) \<Rightarrow> True | Some _ \<Rightarrow> False)"

definition keptPaths :: "VectorPath list \<Rightarrow> bool" where
  "keptPaths paths =
     list_all (\<lambda>p. list_all (\<lambda>c. list_all (\<lambda>q. keptByJSON (pt_x q) \<and> keptByJSON (pt_y q))
                                    (pc_points c))
                      (vp_commands p)) paths"

text \<open>What a stroke and a fill hold, whichever objects hold it: two strokes
  (fills) are structurally equal when these values are equal.\<close>

definition strokeValue :: "StrokeStyle obj \<Rightarrow> Color \<times> real \<times> LineCap \<times> LineJoin" where
  "strokeValue st =
     (contents (st_color (contents st)), st_width (contents st), lineCap (contents st),
      lineJoin (contents st))"

definition fillValue :: "FillStyle obj \<Rightarrow> FillType \<times> Color option \<times> Gradient option" where
  "fillValue fi =
     (fi_type (contents fi), map_option contents (fi_color (contents fi)),
      map_option contents (fi_gradient (contents fi)))"


text \<open>A runtime at program start, with some sequence of generated ids.\<close>

definition initialRuntime :: Runtime where
  "initialRuntime =
     \<lparr>nextAddr = 0, uidSource = (\<lambda>n. ''uid'' @ showNat n), uidsDrawn = 0,
      layerCount = 0, symbolCount = 0\<rparr>"

text \<open>The stroke and fill that the rectangle tool passes to
  \<open>createRectangle\<close> (src/tools/ShapeTool.ts): the colour is the object that
  \<open>hexToColor\<close> returns, the style an object literal around it.\<close>

definition createStroke :: "Color \<Rightarrow> real \<Rightarrow> Runtime \<Rightarrow> StrokeStyle obj \<times> Runtime" where
  "createStroke strokeColor strokeWidth rt =
     (let (c, rt1) = newObj strokeColor rt
      in newObj \<lparr>st_color = c, st_width = strokeWidth, lineCap = CapRound,
                 lineJoin = JoinRound\<rparr> rt1)"

definition createFill :: "Color \<Rightarrow> Runtime \<Rightarrow> FillStyle obj \<times> Runtime" where
  "createFill fillColor rt =
     (let (c, rt1) = newObj fillColor rt
      in newObj \<lparr>fi_type = FillSolid, fi_color = Some c, fi_gradient = None\<rparr> rt1)"

definition noInit :: DocumentInit where
  "noInit = \<lparr>dn_id = None, dn_name = None, dn_settings = None, dn_layers = None,
             dn_library = None, dn_version = None\<rparr>"

text \<open>
  The sum of two doubles where no rounding is involved: the special values
  follow the rules of the arithmetic; on two finite numbers it is the exact
  sum, which is the sum of the doubles whenever that sum is a double, as it
  is for the whole numbers of the examples.
\<close>

fun exactPlus :: "number \<Rightarrow> number \<Rightarrow> number" where
  "exactPlus NaN b = NaN"
| "exactPlus a NaN = NaN"
| "exactPlus PosInfinity NegInfinity = NaN"
| "exactPlus NegInfinity PosInfinity = NaN"
| "exactPlus PosInfinity b = PosInfinity"
| "exactPlus a PosInfinity = PosInfinity"
| "exactPlus NegInfinity b = NegInfinity"
| "exactPlus a NegInfinity = NegInfinity"
| "exactPlus NegZero b = b"
| "exactPlus a NegZero = a"
| "exactPlus (Finite a) (Finite b) = Finite (a + b)"

text \<open>
  A session: a new document; a rectangle built by the rectangle tool (black
  stroke of width 2, black fill); the rectangle added to frame 1 of the
  document's layer.
\<close>

definition black :: Color where
  "black = \<lparr>col_r = 0, col_g = 0, col_b = 0, col_a = 1\<rparr>"

definition startWorld :: World where
  "startWorld = newDocument noInit initialRuntime"

definition drawnRectangle :: "Shape \<times> Runtime" where
  "drawnRectangle =
     (let (fill, rt1) = createFill black (snd startWorld);
          (stroke, rt2) = createStroke black 2 rt1
      in createRectangle exactPlus (Finite 0) (Finite 0) (Finite 10) (Finite 10)
           (Some fill) (Some stroke) rt2)"

definition firstLayerId :: UID where
  "firstLayerId = l_id (hd (d_layers (fst startWorld)))"

definition drawnWorld :: "error + World" where
  "drawnWorld =
     AddShapeCommand_execute firstLayerId 1 (fst drawnRectangle)
       (fst startWorld, snd drawnRectangle)"

text \<open>A rectangle whose left edge is at \<^verbatim>\<open>Infinity\<close>, and a rectangle built
  while \<open>generateUID\<close> returns the same string at every call.\<close>

definition farRectangle :: "Shape \<times> Runtime" where
  "farRectangle =
     createRectangle exactPlus PosInfinity (Finite 0) (Finite 10) (Finite 10) None None
       (snd startWorld)"

definition stuckRuntime :: Runtime where
  "stuckRuntime = initialRuntime\<lparr>uidSource := (\<lambda>n. ''uid'')\<rparr>"

definition stuckRectangle :: "Shape \<times> Runtime" where
  "stuckRectangle =
     createRectangle exactPlus (Finite 0) (Finite 0) (Finite 10) (Finite 10) None None
       stuckRuntime"




text \<open>The document that \<open>fromJSON\<close> builds from the \<open>toJSON\<close> of the session's
  document.\<close>

definition reloadedWorld :: "error + World" where
  "reloadedWorld =
     (case drawnWorld of
        Inl e \<Rightarrow> Inl e
      | Inr (doc, rt) \<Rightarrow>
          (case Document_toJSON doc rt of
             Inl e \<Rightarrow> Inl e
           | Inr (json, rt1) \<Rightarrow> Inr (Document_fromJSON json rt1)))"

text \<open>A document with three layers: two more layers added to the session's
  document, and a rectangle added to frame 1 of the one on top.\<close>

definition threeLayers :: "error + World" where
  "threeLayers =
     (case drawnWorld of
        Inl e \<Rightarrow> Inl e
      | Inr (doc, rt) \<Rightarrow>
          (let (l1, doc1, rt1) = Document_addLayer None doc rt;
               (l0, doc2, rt2) = Document_addLayer (Some ''Top'') doc1 rt1;
               (rect, rt3) = createRectangle exactPlus (Finite 5) (Finite 5) (Finite 20)
                               (Finite 20) None None rt2
           in AddShapeCommand_execute (l_id l0) 1 rect (doc2, rt3)))"

section \<open>Properties\<close>

subsection \<open>Tween engine\<close>

lemma wrapDown_le: "diff \<le> 180 \<Longrightarrow> wrapDown diff = diff"
  by (subst wrapDown.simps) simp

lemma wrapUp_ge: "- 180 \<le> diff \<Longrightarrow> wrapUp diff = diff"
  by (subst wrapUp.simps) simp

lemma wrapUp_step: "diff < - 180 \<Longrightarrow> wrapUp diff = wrapUp (diff + 360)"
  by (subst wrapUp.simps) simp

lemma wrapDown_step: "180 < diff \<Longrightarrow> wrapDown diff = wrapDown (diff - 360)"
  by (subst wrapDown.simps) simp

text \<open>
  C4 (as the code behaves).  \<open>lerpAngle 350 10 0.5\<close> walks the short way
  round, through 0 degrees, and returns the unnormalised angle 360: the same
  direction as 0, but not the number 0, and not the naive midpoint 180.
\<close>

theorem lerpAngle_350_10_half: "lerpAngle 350 10 0.5 = 360"
proof -
  have "wrapDown (10 - 350 :: real) = - 340"
    by (simp add: wrapDown_le)
  moreover have "wrapUp (- 340 :: real) = 20"
    by (simp add: wrapUp_step wrapUp_ge)
  ultimately show ?thesis
    by (simp add: lerpAngle_def)
qed

text \<open>C4 as stated fails: the value is not 0.\<close>

theorem lerpAngle_350_10_half_not_zero: "lerpAngle 350 10 0.5 \<noteq> 0"
proof -
  have "wrapDown (10 - 350 :: real) = - 340"
    by (simp add: wrapDown_le)
  moreover have "wrapUp (- 340 :: real) = 20"
    by (simp add: wrapUp_step wrapUp_ge)
  ultimately show ?thesis
    by (simp add: lerpAngle_def)
qed

text \<open>
  C6.  Each of the nine easing functions of \<open>Easing\<close> maps 0 to 0 and 1 to 1.
\<close>

theorem easing_endpoints:
  "linear 0 = 0 \<and> linear 1 = 1 \<and>
   easeIn 0 = 0 \<and> easeIn 1 = 1 \<and>
   easeOut 0 = 0 \<and> easeOut 1 = 1 \<and>
   easeInOut 0 = 0 \<and> easeInOut 1 = 1 \<and>
   easeInCubic 0 = 0 \<and> easeInCubic 1 = 1 \<and>
   easeOutCubic 0 = 0 \<and> easeOutCubic 1 = 1 \<and>
   easeInOutCubic 0 = 0 \<and> easeInOutCubic 1 = 1 \<and>
   elasticOut 0 = 0 \<and> elasticOut 1 = 1 \<and>
   bounceOut 0 = 0 \<and> bounceOut 1 = 1"
  by (simp add: linear_def easeIn_def easeOut_def easeInOut_def easeInCubic_def
      easeOutCubic_def easeInOutCubic_def elasticOut_def bounceOut_def)

text \<open>
  C7.  \<open>canMotionTween\<close> returns false if either list is empty; it returns
  true if some shape id occurs in both lists; if no id occurs in both, it
  returns true exactly when both lists have exactly one shape.
\<close>

theorem canMotionTween_cases: "(startShapes = [] \<or> endShapes = [] \<longrightarrow> \<not> canMotionTween startShapes endShapes) \<and>
   ((\<exists>u. u \<in> s_id ` set startShapes \<and> u \<in> s_id ` set endShapes) \<longrightarrow> canMotionTween startShapes endShapes) \<and>
   (\<not> (\<exists>u. u \<in> s_id ` set startShapes \<and> u \<in> s_id ` set endShapes) \<longrightarrow>
       canMotionTween startShapes endShapes = (length startShapes = 1 \<and> length endShapes = 1))"
proof -
  have common: "list_ex (\<lambda>startShape. list_ex (\<lambda>s. s_id s = s_id startShape) endShapes) startShapes
      = (\<exists>u. u \<in> s_id ` set startShapes \<and> u \<in> s_id ` set endShapes)"
    unfolding list_ex_iff by (metis (no_types, lifting) image_iff)
  show ?thesis
    unfolding canMotionTween_def common by auto
qed

subsection \<open>Lists: finding, stable sorting, removing\<close>

lemma findIndex_Some_iff:
  "findIndex P xs = Some i \<longleftrightarrow> i < length xs \<and> P (xs ! i) \<and> (\<forall>j<i. \<not> P (xs ! j))"
proof (induction xs arbitrary: i)
  case Nil
  then show ?case by simp
next
  case (Cons x xs)
  show ?case
  proof (cases "P x")
    case True
    then show ?thesis by (cases i) auto
  next
    case False
    show ?thesis
    proof (cases i)
      case 0
      with False show ?thesis by auto
    next
      case (Suc n)
      have "(\<forall>j<Suc n. \<not> P ((x # xs) ! j)) \<longleftrightarrow> (\<forall>j<n. \<not> P (xs ! j))"
        using False by (auto simp: less_Suc_eq_0_disj)
      with False Suc Cons.IH[of n] show ?thesis by auto
    qed
  qed
qed

lemma findIndex_None_iff: "findIndex P xs = None \<longleftrightarrow> (\<forall>x\<in>set xs. \<not> P x)"
  by (induction xs) auto

lemma find_findIndex: "find P xs = map_option (\<lambda>i. xs ! i) (findIndex P xs)"
  by (induction xs) (auto simp: option.map_comp comp_def)

lemma find_filter: "find P xs = (case filter P xs of [] \<Rightarrow> None | x # _ \<Rightarrow> Some x)"
  by (induction xs) auto

lemma findIndex_cong_nth:
  assumes "length ys = length xs" and "\<And>j. j < length xs \<Longrightarrow> P (ys ! j) = P (xs ! j)"
  shows "findIndex P ys = findIndex P xs"
proof (cases "findIndex P xs")
  case None
  then have "\<forall>j<length xs. \<not> P (xs ! j)" by (auto simp: findIndex_None_iff)
  with assms have "\<forall>x\<in>set ys. \<not> P x" by (metis in_set_conv_nth)
  then have "findIndex P ys = None" by (simp add: findIndex_None_iff)
  with None show ?thesis by simp
next
  case (Some i)
  then have "i < length xs \<and> P (xs ! i) \<and> (\<forall>j<i. \<not> P (xs ! j))"
    by (simp add: findIndex_Some_iff)
  with assms have "i < length ys \<and> P (ys ! i) \<and> (\<forall>j<i. \<not> P (ys ! j))"
    by auto
  then have "findIndex P ys = Some i" by (simp add: findIndex_Some_iff)
  with Some show ?thesis by simp
qed

lemma find_sort_key_eq: "find (\<lambda>y. f y = k) (sort_key f xs) = find (\<lambda>y. f y = k) xs"
  by (simp add: find_filter sort_key_stable)

lemma filter_removeAt:
  assumes "i < length xs" and "\<not> P (xs ! i)"
  shows "filter P (removeAt i xs) = filter P xs"
proof -
  have "xs = take i xs @ xs ! i # drop (Suc i) xs"
    using assms(1) by (simp add: id_take_nth_drop)
  then have "filter P xs = filter P (take i xs) @ filter P (xs ! i # drop (Suc i) xs)"
    by (metis filter_append)
  with assms(2) show ?thesis by (simp add: removeAt_def)
qed

lemma nth_list_update_if: "xs[i := v] ! j = (if i = j \<and> i < length xs then v else xs ! j)"
  by (cases "i = j") (auto simp: list_update_beyond)

lemma insort_key_before:
  "k y \<le> k x \<Longrightarrow> insort_key k y (as @ x # bs) = insort_key k y as @ x # bs"
  by (induction as) auto

lemma insort_key_after:
  "\<forall>a\<in>set as. k a < k y \<Longrightarrow> insort_key k y (as @ zs) = as @ insort_key k y zs"
  by (induction as) auto

lemma foldr_insort_split:
  "\<exists>as bs. foldr (insort_key k) xs [x] = as @ x # bs \<and>
           length as = length (filter (\<lambda>y. k y \<le> k x) xs) \<and>
           (\<forall>a\<in>set as. k a \<le> k x) \<and> (\<forall>b\<in>set bs. k x < k b)"
proof (induction xs)
  case Nil
  show ?case by simp
next
  case (Cons y ys)
  then obtain as bs where ih: "foldr (insort_key k) ys [x] = as @ x # bs"
      "length as = length (filter (\<lambda>y. k y \<le> k x) ys)"
      "\<forall>a\<in>set as. k a \<le> k x" "\<forall>b\<in>set bs. k x < k b"
    by blast
  show ?case
  proof (cases "k y \<le> k x")
    case True
    have "foldr (insort_key k) (y # ys) [x] = insort_key k y as @ x # bs"
      using ih(1) True by (simp add: insort_key_before)
    moreover have "length (insort_key k y as) = length (filter (\<lambda>y. k y \<le> k x) (y # ys))"
      using ih(2) True by simp
    moreover have "\<forall>a\<in>set (insort_key k y as). k a \<le> k x"
      using ih(3) True by (simp add: set_insort_key)
    ultimately show ?thesis using ih(4) by blast
  next
    case False
    then have lt: "\<forall>a\<in>set as. k a < k y" using ih(3) by auto
    have "foldr (insort_key k) (y # ys) [x] = as @ x # insort_key k y bs"
      using ih(1) False lt by (simp add: insort_key_after)
    moreover have "length as = length (filter (\<lambda>y. k y \<le> k x) (y # ys))"
      using ih(2) False by simp
    moreover have "\<forall>b\<in>set (insort_key k y bs). k x < k b"
      using ih(4) False by (auto simp: set_insort_key)
    ultimately show ?thesis using ih(3) by blast
  qed
qed

lemma sort_key_pushed_nth:
  "sort_key k (xs @ [x]) ! length (filter (\<lambda>y. k y \<le> k x) xs) = x"
proof -
  have "sort_key k (xs @ [x]) = foldr (insort_key k) xs [x]"
    by (simp add: sort_key_def)
  with foldr_insort_split[of k xs x] show ?thesis
    by (auto simp: nth_append)
qed

lemma sort_key_Cons_min:
  assumes "sort_key f xs = y # ys"
  shows "y \<in> set xs" and "\<forall>z\<in>set xs. f y \<le> f z"
    and "\<exists>rest. filter (\<lambda>x. f x = f y) xs = y # rest"
proof -
  have s: "set xs = set (y # ys)" using assms by (metis set_sort)
  then show "y \<in> set xs" by simp
  have "sorted (map f (y # ys))" using assms by (metis sorted_sort_key)
  then show "\<forall>z\<in>set xs. f y \<le> f z" using s by auto
  have "filter (\<lambda>x. f x = f y) xs = filter (\<lambda>x. f x = f y) (y # ys)"
    using assms by (metis sort_key_stable)
  then show "\<exists>rest. filter (\<lambda>x. f x = f y) xs = y # rest" by simp
qed

lemma filter_enumerate_Cons:
  assumes "filter Q (enumerate 0 fs) = (k, fr) # rest"
  shows "k < length fs \<and> fr = fs ! k \<and> Q (k, fs ! k) \<and> (\<forall>j<k. \<not> Q (j, fs ! j))"
proof -
  have "find Q (enumerate 0 fs) = Some (k, fr)"
    using assms by (simp add: find_filter)
  then obtain i where i: "i < length (enumerate 0 fs)" "Q (enumerate 0 fs ! i)"
      "(k, fr) = enumerate 0 fs ! i" "\<forall>j<i. \<not> Q (enumerate 0 fs ! j)"
    unfolding find_Some_iff by blast
  from i(1) have il: "i < length fs" by simp
  with i(3) have ki: "k = i" "fr = fs ! i" by (simp_all add: nth_enumerate_eq)
  have "\<forall>j<i. \<not> Q (j, fs ! j)"
  proof (intro allI impI)
    fix j assume "j < i"
    with i(4) il show "\<not> Q (j, fs ! j)" by (auto simp: nth_enumerate_eq dest!: spec[of _ j])
  qed
  with i(2) il ki show ?thesis by (simp add: nth_enumerate_eq)
qed

lemma upt_shift: "[d..<d + Suc m] = d # [Suc d..<Suc d + m]"
  by (subst upt_rec) simp

lemma error_eq [simp]: "(e :: error) = e'"
  by (cases e, cases e') simp

subsection \<open>Layer: which keyframe is in effect\<close>

lemma keyframesUpTo_Cons:
  assumes "keyframesUpTo idx L = (k, fr) # rest"
  shows "governs idx (l_frames L) k \<and> fr = l_frames L ! k"
proof -
  let ?fs = "l_frames L"
  let ?P = "\<lambda>p. isKeyframe (snd p) \<and> f_index (snd p) \<le> idx"
  let ?key = "\<lambda>p::nat \<times> Frame. - f_index (snd p)"
  let ?xs = "filter ?P (enumerate 0 ?fs)"
  have sk: "sort_key ?key ?xs = (k, fr) # rest"
    using assms by (simp add: keyframesUpTo_def)
  from sort_key_Cons_min(1)[OF sk] have mem: "(k, fr) \<in> set (enumerate 0 ?fs)" "isKeyframe fr" "f_index fr \<le> idx"
    by auto
  then have k: "k < length ?fs" "fr = ?fs ! k" by (auto simp: in_set_enumerate_eq)
  have le: "f_index (?fs ! j) \<le> f_index fr" if "j < length ?fs" "isKeyframe (?fs ! j)" "f_index (?fs ! j) \<le> idx" for j
  proof -
    have "(j, ?fs ! j) \<in> set ?xs" using that by (auto simp: in_set_enumerate_eq)
    with sort_key_Cons_min(2)[OF sk] have "?key (k, fr) \<le> ?key (j, ?fs ! j)" by blast
    then show ?thesis by (simp only: snd_conv neg_le_iff_le)
  qed
  define Q where "Q = (\<lambda>p::nat \<times> Frame. f_index (snd p) = f_index fr \<and> isKeyframe (snd p) \<and> f_index (snd p) \<le> idx)"
  from sort_key_Cons_min(3)[OF sk] obtain r where
    "filter (\<lambda>x. ?key x = ?key (k, fr)) ?xs = (k, fr) # r" by blast
  moreover have "filter (\<lambda>x. ?key x = ?key (k, fr)) ?xs = filter Q (enumerate 0 ?fs)"
    unfolding Q_def filter_filter by (rule filter_cong) auto
  ultimately have "filter Q (enumerate 0 ?fs) = (k, fr) # r" by simp
  from filter_enumerate_Cons[OF this]
  have "\<forall>j<k. \<not> Q (j, ?fs ! j)" by blast
  then have first: "\<forall>j<k. \<not> (f_index (?fs ! j) = f_index fr \<and> isKeyframe (?fs ! j) \<and> f_index (?fs ! j) \<le> idx)"
    unfolding Q_def by simp
  have "k \<le> j" if "j < length ?fs" "isKeyframe (?fs ! j)" "f_index (?fs ! j) \<le> idx" "f_index (?fs ! j) = f_index fr" for j
    using first that by (meson not_le_imp_less)
  with mem k le show ?thesis unfolding governs_def by auto
qed

lemma governs_unique: "governs idx fs k \<Longrightarrow> governs idx fs k' \<Longrightarrow> k = k'"
  unfolding governs_def by (metis order_antisym)

lemma getKeyframePosAt_iff: "Layer_getKeyframePosAt idx L = Some k \<longleftrightarrow> governs idx (l_frames L) k"
proof
  assume "Layer_getKeyframePosAt idx L = Some k"
  then obtain fr rest where "keyframesUpTo idx L = (k, fr) # rest"
    by (auto simp: Layer_getKeyframePosAt_def split: list.splits)
  then show "governs idx (l_frames L) k" using keyframesUpTo_Cons by blast
next
  assume g: "governs idx (l_frames L) k"
  then have "(k, l_frames L ! k) \<in> set (keyframesUpTo idx L)"
    by (auto simp: keyframesUpTo_def governs_def in_set_enumerate_eq)
  then obtain k' fr rest where c: "keyframesUpTo idx L = (k', fr) # rest"
    by (cases "keyframesUpTo idx L") auto
  then have "governs idx (l_frames L) k'" using keyframesUpTo_Cons by blast
  with g have "k' = k" using governs_unique by blast
  with c show "Layer_getKeyframePosAt idx L = Some k"
    by (simp add: Layer_getKeyframePosAt_def)
qed

lemma getKeyframeAt_pos:
  "Layer_getKeyframeAt idx L = map_option (\<lambda>k. l_frames L ! k) (Layer_getKeyframePosAt idx L)"
proof (cases "keyframesUpTo idx L")
  case Nil
  then show ?thesis by (simp add: Layer_getKeyframeAt_def Layer_getKeyframePosAt_def)
next
  case (Cons p rest)
  obtain k fr where p: "p = (k, fr)" by (cases p)
  with Cons keyframesUpTo_Cons[of idx L k fr rest] have "fr = l_frames L ! k" by simp
  with Cons p show ?thesis by (simp add: Layer_getKeyframeAt_def Layer_getKeyframePosAt_def)
qed


lemma getFrame_getFramePos:
  "Layer_getFrame i L = map_option (\<lambda>k. l_frames L ! k) (Layer_getFramePos i L)"
  by (simp add: Layer_getFrame_def Layer_getFramePos_def find_findIndex)

lemma getFramePos_index:
  "Layer_getFramePos i L = Some k \<Longrightarrow> k < length (l_frames L) \<and> f_index (l_frames L ! k) = i"
  by (simp add: Layer_getFramePos_def findIndex_Some_iff)

lemma getFrame_None_pos: "Layer_getFrame n L = None \<Longrightarrow> Layer_getFramePos n L = None"
  by (simp add: getFrame_getFramePos)

lemma newFrame_fields:
  assumes "newFrame d rt = (f, rt')"
  shows "f_instance f" 
    and "fn_index d = Some i \<Longrightarrow> f_index f = i"
    and "fn_isKeyframe d = Some b \<Longrightarrow> isKeyframe f = b"
    and "fn_shapes d = Some sh \<Longrightarrow> f_shapes f = sh"
    and "fn_id d = None \<Longrightarrow> f_id f = uidSource rt (uidsDrawn rt)"
    and "nextAddr rt' = nextAddr rt"
  using assms by (auto simp: newFrame_def generateUID_def Let_def split: prod.splits option.splits)

lemma newFrame_index: "newFrame d rt = (f, rt') \<Longrightarrow> fn_index d = Some i \<Longrightarrow> f_index f = i"
  by (auto simp: newFrame_def Let_def split: prod.splits)

lemma governs_pushed:
  assumes none: "\<forall>g\<in>set fs. f_index g \<noteq> n" and fi: "f_index f = n" and fk: "isKeyframe f"
  shows "\<exists>k. governs n (sort_key f_index (fs @ [f])) k \<and> sort_key f_index (fs @ [f]) ! k = f"
proof -
  let ?ys = "sort_key f_index (fs @ [f])"
  have "f \<in> set ?ys" by simp
  then have "findIndex (\<lambda>g. f_index g = n) ?ys \<noteq> None"
    using fi by (auto simp: findIndex_None_iff)
  then obtain k where "findIndex (\<lambda>g. f_index g = n) ?ys = Some k" by blast
  then have k: "k < length ?ys" "f_index (?ys ! k) = n" "\<forall>j<k. f_index (?ys ! j) \<noteq> n"
    by (simp_all add: findIndex_Some_iff)
  have "?ys ! k \<in> set (fs @ [f])" using k(1) by (metis nth_mem set_sort)
  with none k(2) have eq: "?ys ! k = f" by auto
  have "governs n ?ys k"
    unfolding governs_def using k eq fk fi by (auto simp: not_less[symmetric])
  with eq show ?thesis by blast
qed

text \<open>The position that \<open>insertKeyframe\<close> returns holds a keyframe with the
  requested index.\<close>

lemma insertKeyframe_returns_frame:
  assumes "Layer_insertKeyframe n L rt = Inr (p, L', rt')"
  shows "p < length (l_frames L') \<and> f_index (l_frames L' ! p) = n \<and> isKeyframe (l_frames L' ! p)"
proof (cases "Layer_getFramePos n L")
  case None
  from assms None obtain f where L': "l_frames L' = sort_key f_index (l_frames L @ [f])"
     and p: "p = length (filter (\<lambda>g. f_index g \<le> n) (l_frames L))"
     and f: "f_index f = n" "isKeyframe f"
    by (auto simp: Layer_insertKeyframe_def Let_def newFrame_def split: sum.splits prod.splits)
  have "l_frames L' ! p = f"
    unfolding L' p using sort_key_pushed_nth[of f_index "l_frames L" f] f(1) by simp
  moreover have "p < length (l_frames L')"
    unfolding L' p by (simp add: less_Suc_eq_le)
  ultimately show ?thesis using f by simp
next
  case (Some k)
  note ix = getFramePos_index[OF Some]
  from assms Some ix show ?thesis
    by (auto simp: Layer_insertKeyframe_def Let_def Frame_makeKeyframe_def
        split: if_splits option.splits sum.splits)
qed

subsection \<open>Shape.clone\<close>

lemma Shape_clone_props:
  assumes "Shape_clone s rt = (c, rt')"
  shows "s_name c = s_name s @ '' Copy''"
    and "s_id c = uidSource rt (uidsDrawn rt)"
    and "s_instance c"
    and "contents (s_paths c) = JSON_parse_stringify (contents (s_paths s))"
    and "map_option contents (s_stroke c) = map_option contents (s_stroke s)"
    and "map_option contents (s_fill c) = map_option contents (s_fill s)"
    and "contents (s_transform c) = contents (s_transform s)"
    and "ownAddrs c \<subseteq> {nextAddr rt ..< nextAddr rt'}"
    and "nestedAddrs c = nestedAddrs s"
    and "uidsDrawn rt' = Suc (uidsDrawn rt)"
    and "uidSource rt' = uidSource rt"
    and "nextAddr rt < nextAddr rt'"
    and "layerCount rt' = layerCount rt" and "symbolCount rt' = symbolCount rt"
  using assms
  by (auto simp: Shape_clone_def newShape_def spreadOpt_def newObj_def generateUID_def
      ownAddrs_def nestedAddrs_def Let_def split: option.splits prod.splits)

lemma jsonNumber_kept: "keptByJSON v \<Longrightarrow> jsonNumber v = v"
  by (cases v rule: jsonNumber.cases) (simp_all add: keptByJSON_def)

lemma JSON_parse_stringify_kept: "keptPaths paths \<Longrightarrow> JSON_parse_stringify paths = paths"
  unfolding keptPaths_def JSON_parse_stringify_def list_all_iff
  by (intro map_idI)
     (simp add: jsonPath_def jsonCommand_def jsonPoint_def jsonNumber_kept map_idI)

lemma cloneAll_total:
  "list_all s_instance S \<Longrightarrow> \<exists>S' rt'. cloneAll S rt = Inr (S', rt')"
proof (induction S arbitrary: rt)
  case Nil
  then show ?case by simp
next
  case (Cons s S)
  obtain c rt1 where c: "Shape_clone s rt = (c, rt1)" by (cases "Shape_clone s rt")
  from Cons.prems have "list_all s_instance S" by simp
  from Cons.IH[OF this, of rt1] obtain S' rt' where "cloneAll S rt1 = Inr (S', rt')" by blast
  with Cons.prems c show ?case by (simp add: call_clone_def)
qed

lemma cloneAll_props:
  assumes "cloneAll S rt = Inr (S', rt')"
  shows "list_all2 (\<lambda>s c. s_name c = s_name s @ '' Copy'' \<and>
                  contents (s_paths c) = JSON_parse_stringify (contents (s_paths s)) \<and>
                  map_option contents (s_stroke c) = map_option contents (s_stroke s) \<and>
                  map_option contents (s_fill c) = map_option contents (s_fill s) \<and>
                  contents (s_transform c) = contents (s_transform s) \<and>
                  nestedAddrs c = nestedAddrs s) S S'
         \<and> map s_id S' = map (uidSource rt) [uidsDrawn rt ..< uidsDrawn rt + length S]
         \<and> (\<forall>c\<in>set S'. s_instance c \<and> ownAddrs c \<subseteq> {nextAddr rt ..< nextAddr rt'})
         \<and> uidsDrawn rt' = uidsDrawn rt + length S \<and> uidSource rt' = uidSource rt
         \<and> nextAddr rt \<le> nextAddr rt'"
  using assms
proof (induction S arbitrary: rt S')
  case Nil
  then show ?case by simp
next
  case (Cons s S)
  from Cons.prems obtain c rt1 cs where
    c: "Shape_clone s rt = (c, rt1)" and cs: "cloneAll S rt1 = Inr (cs, rt')" and S': "S' = c # cs"
    by (auto simp: call_clone_def split: if_splits sum.splits prod.splits)
  note p = Shape_clone_props[OF c]
  note ih = Cons.IH[OF cs]
  have ids: "map s_id S' = map (uidSource rt) [uidsDrawn rt ..< uidsDrawn rt + length (s # S)]"
  proof -
    have "[uidsDrawn rt ..< uidsDrawn rt + length (s # S)]
          = uidsDrawn rt # [uidsDrawn rt1 ..< uidsDrawn rt1 + length S]"
      using p(10) upt_shift[of "uidsDrawn rt" "length S"] by simp
    moreover have "map s_id cs = map (uidSource rt) [uidsDrawn rt1 ..< uidsDrawn rt1 + length S]"
      using ih p(11) by simp
    ultimately show ?thesis using p(2) S' by simp
  qed
  have own: "\<forall>c\<in>set S'. s_instance c \<and> ownAddrs c \<subseteq> {nextAddr rt ..< nextAddr rt'}"
  proof
    fix d assume "d \<in> set S'"
    then consider "d = c" | "d \<in> set cs" using S' by auto
    then show "s_instance d \<and> ownAddrs d \<subseteq> {nextAddr rt ..< nextAddr rt'}"
    proof cases
      case 1
      with p(3,8) ih show ?thesis by auto
    next
      case 2
      with ih have "s_instance d" "ownAddrs d \<subseteq> {nextAddr rt1 ..< nextAddr rt'}" by auto
      with p(12) show ?thesis by auto
    qed
  qed
  from ih p S' ids own show ?case by simp
qed



subsection \<open>Evaluating the example session\<close>

lemma showNat_digit: "n < 10 \<Longrightarrow> showNat n = [''0123456789'' ! n]"
  by (subst showNat.simps) simp

lemmas session_defs =
  newDocument_def noInit_def newLayer_def newFrame_def generateUID_def initialRuntime_def
  startWorld_def drawnRectangle_def createFill_def createStroke_def createRectangle_def
  newShape_def newObj_def createDefaultTransform_def black_def firstLayerId_def
  LAYER_COLORS_def showNat_digit Let_def

lemmas layer_defs =
  Layer_getFrame_def Layer_getFramePos_def keyframesUpTo_def Layer_getKeyframeAt_def
  Layer_getKeyframePosAt_def Layer_insertKeyframe_def Layer_insertBlankKeyframe_def
  Layer_clearKeyframe_def Layer_addShapeAtFrame_def Layer_getShapesAtFrame_def
  Frame_addShape_def Frame_removeShape_def Frame_getShape_def Frame_clear_def
  Frame_makeKeyframe_def Frame_makeBlankKeyframe_def Frame_setMotionTween_def
  Frame_setShapeTween_def Frame_removeTween_def removeAt_def
  Shape_clone_def call_clone_def spreadOpt_def

lemmas command_defs =
  AddShapeCommand_execute_def AddShapeCommand_undo_def RemoveShapesCommand_execute_def
  SetTweenCommand_execute_def SetTweenCommand_undo_def applyTween_def
  Document_getLayerPos_def Document_selectShape_def Document_deselectShape_def
  Document_clearSelection_def setLayer_def setFrame_def commands_def
  HistoryManager_execute_def HistoryManager_undo_def HistoryManager_redo_def
  newHistoryManager_def HistoryManager_setMaxHistory_def

lemmas json_defs =
  Document_toJSON_def call_Layer_toJSON_def Layer_toJSON_def call_Frame_toJSON_def
  Frame_toJSON_def call_Shape_toJSON_def Shape_toJSON_def Library_toJSON_def
  Document_fromJSON_def asLayer_def reloadedWorld_def

lemmas path_defs = JSON_parse_stringify_def jsonPath_def jsonCommand_def jsonPoint_def


text \<open>C7, at concrete lists: an empty start list; the same shape on both
  sides; one shape on each side with different ids (a shape and its clone);
  two shapes against one with no common id.\<close>

theorem canMotionTween_cases_witness:
  "\<not> canMotionTween [] [fst drawnRectangle] \<and>
   canMotionTween [fst drawnRectangle] [fst drawnRectangle] \<and>
   canMotionTween [fst drawnRectangle]
                  [fst (Shape_clone (fst drawnRectangle) (snd drawnRectangle))] \<and>
   \<not> canMotionTween [fst drawnRectangle, fst drawnRectangle]
                    [fst (Shape_clone (fst drawnRectangle) (snd drawnRectangle))]"
  using canMotionTween_cases[of "[]" "[fst drawnRectangle]"]
        canMotionTween_cases[of "[fst drawnRectangle]" "[fst drawnRectangle]"]
        canMotionTween_cases[of "[fst drawnRectangle]" "[fst (Shape_clone (fst drawnRectangle) (snd drawnRectangle))]"]
        canMotionTween_cases[of "[fst drawnRectangle, fst drawnRectangle]" "[fst (Shape_clone (fst drawnRectangle) (snd drawnRectangle))]"]
  by (simp add: session_defs layer_defs)




subsection \<open>insertKeyframe carries the shapes forward\<close>

lemma governs_no_frame:
  assumes "\<forall>g\<in>set fs. f_index g \<noteq> n"
  shows "governs n fs k \<longleftrightarrow> governs (n - 1) fs k"
proof -
  have "f_index (fs ! j) \<le> n \<longleftrightarrow> f_index (fs ! j) \<le> n - 1" if "j < length fs" for j
  proof -
    from that assms have "f_index (fs ! j) \<noteq> n" by simp
    then show ?thesis by arith
  qed
  then show ?thesis unfolding governs_def by auto
qed

lemma governs_update_later:
  assumes "f_index g = f_index (fs ! i)" and "idx < f_index g"
  shows "governs idx (fs[i := g]) k \<longleftrightarrow> governs idx fs k"
proof -
  have ix: "f_index (fs[i := g] ! j) = f_index (fs ! j)" for j
    using assms(1) by (simp add: nth_list_update_if)
  have kf: "isKeyframe (fs[i := g] ! j) = isKeyframe (fs ! j)" if "f_index (fs ! j) \<le> idx" for j
    using that assms by (auto simp: nth_list_update_if)
  show ?thesis unfolding governs_def ix length_list_update using kf by auto
qed

lemma governs_at_first:
  assumes "findIndex (\<lambda>f. f_index f = n) fs = Some i" and "f_index g = n" and "isKeyframe g"
  shows "governs n (fs[i := g]) i"
proof -
  from assms(1) have i: "i < length fs" and first: "\<forall>j<i. f_index (fs ! j) \<noteq> n"
    by (simp_all add: findIndex_Some_iff)
  have "i \<le> j" if "f_index (fs[i := g] ! j) = n" for j
  proof (rule ccontr)
    assume "\<not> i \<le> j"
    then have "j < i" by simp
    with first that show False by (simp add: nth_list_update_if)
  qed
  with i assms(2,3) show ?thesis unfolding governs_def by simp
qed

lemma getKeyframePosAt_cong:
  assumes "\<And>k. governs a (l_frames L) k \<longleftrightarrow> governs b (l_frames L') k"
  shows "Layer_getKeyframePosAt a L = Layer_getKeyframePosAt b L'"
proof (cases "Layer_getKeyframePosAt a L")
  case None
  show ?thesis
  proof (cases "Layer_getKeyframePosAt b L'")
    case N: None
    with None show ?thesis by simp
  next
    case (Some k)
    then have "governs a (l_frames L) k" using assms by (simp add: getKeyframePosAt_iff)
    then have "Layer_getKeyframePosAt a L = Some k" by (simp add: getKeyframePosAt_iff)
    with None show ?thesis by simp
  qed
next
  case (Some k)
  then have "governs b (l_frames L') k" using assms by (simp add: getKeyframePosAt_iff)
  then have "Layer_getKeyframePosAt b L' = Some k" by (simp add: getKeyframePosAt_iff)
  with Some show ?thesis by simp
qed

lemma strokeValue_cong:
  "map_option contents a = map_option contents b \<Longrightarrow> map_option strokeValue a = map_option strokeValue b"
  by (cases a; cases b) (simp_all add: strokeValue_def)

lemma fillValue_cong:
  "map_option contents a = map_option contents b \<Longrightarrow> map_option fillValue a = map_option fillValue b"
  by (cases a; cases b) (simp_all add: fillValue_def)

text \<open>What \<open>insertKeyframe\<close> does in the two cases of the statement below:
  it returns, and the keyframe at \<open>n\<close> then holds the clones.\<close>

lemma insertKeyframe_clones:
  assumes prev: "Layer_getKeyframeAt (n - 1) L = Some kf"
    and S: "f_shapes kf = S" and flag: "isEmpty kf \<longrightarrow> S = []"
    and slot: "case Layer_getFrame n L of
                 None \<Rightarrow> True
               | Some f \<Rightarrow> f_instance f \<and> isEmpty f \<and> f_shapes f = []"
    and cl: "cloneAll S rt = Inr (S', rt1)"
  shows "\<exists>p L' rt'. Layer_insertKeyframe n L rt = Inr (p, L', rt') \<and>
           Layer_getShapesAtFrame n L' = S' \<and> nextAddr rt' = nextAddr rt1"
proof -
  from prev obtain k where kp: "Layer_getKeyframePosAt (n - 1) L = Some k"
      and kfk: "kf = l_frames L ! k"
    by (auto simp: getKeyframeAt_pos)
  then have gk: "governs (n - 1) (l_frames L) k" by (simp add: getKeyframePosAt_iff)
  have cs: "(if \<not> isEmpty kf then cloneAll (f_shapes kf) rt else Inr ([], rt)) = Inr (S', rt1)"
    using cl S flag by auto
  show ?thesis
  proof (cases "Layer_getFramePos n L")
    case None
    then have none: "\<forall>g\<in>set (l_frames L). f_index g \<noteq> n"
      by (simp add: Layer_getFramePos_def findIndex_None_iff)
    have "Layer_getKeyframePosAt n L = Layer_getKeyframePosAt (n - 1) L"
      by (rule getKeyframePosAt_cong) (rule governs_no_frame[OF none])
    with prev have gov: "Layer_getKeyframeAt n L = Some kf" by (simp add: getKeyframeAt_pos)
    let ?d = "\<lparr>fn_id = None, fn_index = Some n, fn_isKeyframe = Some True,
               fn_isEmpty = Some (isEmpty kf), fn_shapes = Some S', fn_tweenType = None,
               fn_easing = None, fn_duration = None\<rparr>"
    obtain f rt2 where nf: "newFrame ?d rt1 = (f, rt2)" by (cases "newFrame ?d rt1")
    note ff = newFrame_fields[OF nf]
    let ?L' = "L\<lparr>l_frames := sort_key f_index (l_frames L @ [f])\<rparr>"
    let ?p = "length (filter (\<lambda>g. f_index g \<le> n) (l_frames L))"
    have ins: "Layer_insertKeyframe n L rt = Inr (?p, ?L', rt2)"
      using None gov cs nf by (simp add: Layer_insertKeyframe_def)
    from governs_pushed[OF none, of f] ff obtain j where
      "governs n (l_frames ?L') j" "l_frames ?L' ! j = f" by auto
    then have "Layer_getKeyframeAt n ?L' = Some f"
      by (simp add: getKeyframeAt_pos getKeyframePosAt_iff[THEN iffD2])
    then have sh: "Layer_getShapesAtFrame n ?L' = S'"
      using ff by (simp add: Layer_getShapesAtFrame_def)
    have "nextAddr rt2 = nextAddr rt1" using ff by simp
    with ins sh show ?thesis by blast
  next
    case (Some i)
    note ix = getFramePos_index[OF Some]
    let ?f = "l_frames L ! i"
    have "Layer_getFrame n L = Some ?f" using Some by (simp add: getFrame_getFramePos)
    with slot have sl: "f_instance ?f" "isEmpty ?f" "f_shapes ?f = []" by simp_all
    let ?f1 = "Frame_makeKeyframe ?f"
    let ?L1 = "L\<lparr>l_frames := (l_frames L)[i := ?f1]\<rparr>"
    have f1: "f_index ?f1 = n" "isKeyframe ?f1" "isEmpty ?f1" "f_shapes ?f1 = []"
      using ix sl by (simp_all add: Frame_makeKeyframe_def)
    have "governs (n - 1) (l_frames ?L1) k"
      using gk governs_update_later[of ?f1 "l_frames L" i "n - 1" k] f1(1) ix by simp
    then have kp1: "Layer_getKeyframePosAt (n - 1) ?L1 = Some k"
      by (simp add: getKeyframePosAt_iff)
    have ki: "k \<noteq> i" using gk ix by (auto simp: governs_def)
    have prev1: "Layer_getKeyframeAt (n - 1) ?L1 = Some kf"
      using kp1 ki kfk by (simp add: getKeyframeAt_pos)
    let ?g = "?f1\<lparr>f_shapes := S', isEmpty := isEmpty kf\<rparr>"
    let ?L' = "L\<lparr>l_frames := (l_frames L)[i := ?g]\<rparr>"
    have ins: "Layer_insertKeyframe n L rt = Inr (i, ?L', rt1)"
    proof (cases "isEmpty kf")
      case True
      with flag S cl have e: "S' = []" "rt1 = rt" by auto
      have eq: "?g = ?f1" using e True f1 by simp
      have "Layer_insertKeyframe n L rt = Inr (i, ?L1, rt)"
        using Some sl f1 prev1 True by (simp add: Layer_insertKeyframe_def Let_def)
      then show ?thesis unfolding eq e(2) .
    next
      case False
      with cs have "cloneAll (f_shapes kf) rt = Inr (S', rt1)" by simp
      then show ?thesis
        using Some sl f1 prev1 False by (simp add: Layer_insertKeyframe_def Let_def)
    qed
    have "governs n (l_frames ?L') i"
      using governs_at_first[of n "l_frames L" i ?g] Some f1
      by (simp add: Layer_getFramePos_def)
    then have "Layer_getKeyframePosAt n ?L' = Some i" by (simp add: getKeyframePosAt_iff)
    then have sh: "Layer_getShapesAtFrame n ?L' = S'"
      using ix by (simp add: Layer_getShapesAtFrame_def getKeyframeAt_pos)
    from ins sh show ?thesis by blast
  qed
qed

text \<open>
  C3 (as the code behaves).  Take a layer in which the keyframe in effect just
  before frame \<open>n\<close> holds the \<open>Shape\<close> instances \<open>S\<close> and has its \<open>isEmpty\<close>
  flag set only if \<open>S\<close> is empty (for the claim: \<open>n = 10\<close> and the keyframe at
  frame 1), and in which frame \<open>n\<close> is absent or is an empty \<open>Frame\<close>
  instance.  Then \<open>insertKeyframe(n)\<close> returns and \<open>getShapesAtFrame(n)\<close> yields
  one shape per shape of \<open>S\<close>, in order.  Its name is the original's with
  \<open>'' Copy''\<close> appended.  Its paths hold what
  \<^verbatim>\<open>JSON.parse(JSON.stringify(...))\<close> gives back of the original's: the same
  when every coordinate is a finite number other than the negative zero, or
  \<^verbatim>\<open>null\<close>.  Its stroke, fill and transform are structurally equal to the
  original's.  The ids are the next \<open>length S\<close> strings that \<open>generateUID\<close>
  returns: none of them is an id of \<open>S\<close> unless \<open>generateUID\<close> returns one of
  those again.  The shape and its paths, stroke, fill and transform objects
  were created by the call (their addresses are the next ones of the
  allocator), so they are none of the objects that existed before it, those
  that the shapes of \<open>S\<close> refer to among them.
\<close>

theorem insertKeyframe_carries_forward:
  assumes prev: "Layer_getKeyframeAt (n - 1) L = Some kf"
    and S: "f_shapes kf = S" and flag: "isEmpty kf \<longrightarrow> S = []"
    and inst: "list_all s_instance S"
    and slot: "case Layer_getFrame n L of
                 None \<Rightarrow> True
               | Some f \<Rightarrow> f_instance f \<and> isEmpty f \<and> f_shapes f = []"
  shows "\<exists>p L' rt' S'.
           Layer_insertKeyframe n L rt = Inr (p, L', rt') \<and>
           Layer_getShapesAtFrame n L' = S' \<and>
           list_all2 (\<lambda>s c. s_name c = s_name s @ '' Copy'' \<and>
                  contents (s_paths c) = JSON_parse_stringify (contents (s_paths s)) \<and>
                  (keptPaths (contents (s_paths s)) \<longrightarrow>
                     contents (s_paths c) = contents (s_paths s)) \<and>
                  map_option strokeValue (s_stroke c) = map_option strokeValue (s_stroke s) \<and>
                  map_option fillValue (s_fill c) = map_option fillValue (s_fill s) \<and>
                  contents (s_transform c) = contents (s_transform s)) S S' \<and>
           map s_id S' = map (uidSource rt) [uidsDrawn rt ..< uidsDrawn rt + length S] \<and>
           ((\<forall>j<length S. uidSource rt (uidsDrawn rt + j) \<notin> s_id ` set S) \<longrightarrow>
              s_id ` set S' \<inter> s_id ` set S = {}) \<and>
           (\<forall>c\<in>set S'. ownAddrs c \<subseteq> {nextAddr rt ..< nextAddr rt'}) \<and>
           ((\<forall>s\<in>set S. ownAddrs s \<union> nestedAddrs s \<subseteq> {..< nextAddr rt}) \<longrightarrow>
              (\<forall>c\<in>set S'. \<forall>s\<in>set S. ownAddrs c \<inter> (ownAddrs s \<union> nestedAddrs s) = {}))"
proof -
  from cloneAll_total[OF inst] obtain S' rt1 where cl: "cloneAll S rt = Inr (S', rt1)" by blast
  note props = cloneAll_props[OF cl]
  from insertKeyframe_clones[OF prev S flag slot cl] obtain p L' rt' where
    ins: "Layer_insertKeyframe n L rt = Inr (p, L', rt')"
    and sh: "Layer_getShapesAtFrame n L' = S'" and na: "nextAddr rt' = nextAddr rt1"
    by blast
  have rel: "list_all2 (\<lambda>s c. s_name c = s_name s @ '' Copy'' \<and>
                  contents (s_paths c) = JSON_parse_stringify (contents (s_paths s)) \<and>
                  (keptPaths (contents (s_paths s)) \<longrightarrow>
                     contents (s_paths c) = contents (s_paths s)) \<and>
                  map_option strokeValue (s_stroke c) = map_option strokeValue (s_stroke s) \<and>
                  map_option fillValue (s_fill c) = map_option fillValue (s_fill s) \<and>
                  contents (s_transform c) = contents (s_transform s)) S S'"
  proof (rule list_all2_mono[OF props[THEN conjunct1]])
    fix s c
    assume "s_name c = s_name s @ '' Copy'' \<and>
            contents (s_paths c) = JSON_parse_stringify (contents (s_paths s)) \<and>
            map_option contents (s_stroke c) = map_option contents (s_stroke s) \<and>
            map_option contents (s_fill c) = map_option contents (s_fill s) \<and>
            contents (s_transform c) = contents (s_transform s) \<and>
            nestedAddrs c = nestedAddrs s"
    then show "s_name c = s_name s @ '' Copy'' \<and>
            contents (s_paths c) = JSON_parse_stringify (contents (s_paths s)) \<and>
            (keptPaths (contents (s_paths s)) \<longrightarrow>
               contents (s_paths c) = contents (s_paths s)) \<and>
            map_option strokeValue (s_stroke c) = map_option strokeValue (s_stroke s) \<and>
            map_option fillValue (s_fill c) = map_option fillValue (s_fill s) \<and>
            contents (s_transform c) = contents (s_transform s)"
      using strokeValue_cong[of "s_stroke c" "s_stroke s"]
            fillValue_cong[of "s_fill c" "s_fill s"]
      by (simp add: JSON_parse_stringify_kept)
  qed
  from props na have own: "\<forall>c\<in>set S'. ownAddrs c \<subseteq> {nextAddr rt ..< nextAddr rt'}" by simp
  have disj: "\<forall>c\<in>set S'. \<forall>s\<in>set S. ownAddrs c \<inter> (ownAddrs s \<union> nestedAddrs s) = {}"
    if old: "\<forall>s\<in>set S. ownAddrs s \<union> nestedAddrs s \<subseteq> {..< nextAddr rt}"
  proof (intro ballI)
    fix c s assume "c \<in> set S'" "s \<in> set S"
    with own old have "ownAddrs c \<subseteq> {nextAddr rt ..< nextAddr rt'}"
      "ownAddrs s \<union> nestedAddrs s \<subseteq> {..< nextAddr rt}" by auto
    then show "ownAddrs c \<inter> (ownAddrs s \<union> nestedAddrs s) = {}" by fastforce
  qed
  have ids: "s_id ` set S' \<inter> s_id ` set S = {}"
    if fresh: "\<forall>j<length S. uidSource rt (uidsDrawn rt + j) \<notin> s_id ` set S"
  proof -
    have "s_id ` set S' = set (map s_id S')" by simp
    also have "\<dots> = uidSource rt ` {uidsDrawn rt ..< uidsDrawn rt + length S}"
      using props by simp
    finally have e: "s_id ` set S' = uidSource rt ` {uidsDrawn rt ..< uidsDrawn rt + length S}" .
    show ?thesis
    proof (rule ccontr)
      assume "s_id ` set S' \<inter> s_id ` set S \<noteq> {}"
      then obtain u where u: "u \<in> s_id ` set S'" "u \<in> s_id ` set S" by blast
      from u(1) e obtain m where m: "uidsDrawn rt \<le> m" "m < uidsDrawn rt + length S" "u = uidSource rt m"
        by auto
      then obtain j where "m = uidsDrawn rt + j" "j < length S"
        by (metis add_less_cancel_left le_Suc_ex)
      with fresh m(3) u(2) show False by auto
    qed
  qed
  show ?thesis
  proof (intro exI conjI impI)
    show "Layer_insertKeyframe n L rt = Inr (p, L', rt')" by (rule ins)
    show "Layer_getShapesAtFrame n L' = S'" by (rule sh)
    show "list_all2 (\<lambda>s c. s_name c = s_name s @ '' Copy'' \<and>
                  contents (s_paths c) = JSON_parse_stringify (contents (s_paths s)) \<and>
                  (keptPaths (contents (s_paths s)) \<longrightarrow>
                     contents (s_paths c) = contents (s_paths s)) \<and>
                  map_option strokeValue (s_stroke c) = map_option strokeValue (s_stroke s) \<and>
                  map_option fillValue (s_fill c) = map_option fillValue (s_fill s) \<and>
                  contents (s_transform c) = contents (s_transform s)) S S'"
      by (rule rel)
    show "map s_id S' = map (uidSource rt) [uidsDrawn rt ..< uidsDrawn rt + length S]"
      by (rule props[THEN conjunct2, THEN conjunct1])
    show "s_id ` set S' \<inter> s_id ` set S = {}"
      if "\<forall>j<length S. uidSource rt (uidsDrawn rt + j) \<notin> s_id ` set S"
      using that by (rule ids)
    show "\<forall>c\<in>set S'. ownAddrs c \<subseteq> {nextAddr rt ..< nextAddr rt'}" by (rule own)
    show "\<forall>c\<in>set S'. \<forall>s\<in>set S. ownAddrs c \<inter> (ownAddrs s \<union> nestedAddrs s) = {}"
      if "\<forall>s\<in>set S. ownAddrs s \<union> nestedAddrs s \<subseteq> {..< nextAddr rt}"
      using that by (rule disj)
  qed
qed

lemma blank_facts:
  "\<exists>doc rt L kf r Lb rtb fb.
     drawnWorld = Inr (doc, rt) \<and> d_layers doc = [L] \<and> l_frames L = [kf] \<and>
     isKeyframe kf \<and> f_index kf = 1 \<and> \<not> isEmpty kf \<and> f_shapes kf = [r] \<and>
     r = fst drawnRectangle \<and> s_instance r \<and> s_name r = ''Rectangle'' \<and> s_id r = ''uid3'' \<and>
     nextAddr rt = 7 \<and> uidsDrawn rt = 4 \<and> uidSource rt = (\<lambda>n. ''uid'' @ showNat n) \<and>
     Layer_insertBlankKeyframe 10 L rt = Inr (1, Lb, rtb) \<and> l_frames Lb = [kf, fb] \<and>
     f_instance fb \<and> f_index fb = 10 \<and> isKeyframe fb \<and> isEmpty fb \<and> f_shapes fb = [] \<and>
     nextAddr rtb = 7 \<and> uidsDrawn rtb = 5 \<and> uidSource rtb = (\<lambda>n. ''uid'' @ showNat n)"
  unfolding drawnWorld_def
  by (simp add: session_defs layer_defs command_defs)

text \<open>C3, at the layer of the example session (frame 1 holds the
  rectangle, id \<open>uid3\<close>): once with no frame at 10, once after
  \<open>insertBlankKeyframe(10)\<close> has put an empty keyframe there.\<close>

theorem insertKeyframe_carries_forward_witness:
  "(case drawnWorld of
      Inl e \<Rightarrow> False
    | Inr (doc, rt) \<Rightarrow>
        Layer_getFrame 10 (hd (d_layers doc)) = None \<and>
        map f_index (l_frames (hd (d_layers doc))) = [1] \<and>
        (\<exists>p L' rt'.
           Layer_insertKeyframe 10 (hd (d_layers doc)) rt = Inr (p, L', rt') \<and>
           map s_name (Layer_getShapesAtFrame 10 L') = [''Rectangle Copy''] \<and>
           map s_id (Layer_getShapesAtFrame 10 L') = [''uid4''] \<and>
           map (\<lambda>c. contents (s_paths c)) (Layer_getShapesAtFrame 10 L')
             = [contents (s_paths (fst drawnRectangle))] \<and>
           (\<forall>c\<in>set (Layer_getShapesAtFrame 10 L').
              ownAddrs c \<subseteq> {nextAddr rt ..< nextAddr rt'} \<and>
              ownAddrs c \<inter> (ownAddrs (fst drawnRectangle) \<union> nestedAddrs (fst drawnRectangle)) = {}) \<and>
           s_id ` set (Layer_getShapesAtFrame 10 L') \<inter> {s_id (fst drawnRectangle)} = {}) \<and>
        (case Layer_insertBlankKeyframe 10 (hd (d_layers doc)) rt of
           Inl e \<Rightarrow> False
         | Inr (q, Lb, rtb) \<Rightarrow>
             map (\<lambda>f. (f_index f, isEmpty f, f_shapes f = [])) (l_frames Lb)
               = [(1, False, False), (10, True, True)] \<and>
             (\<exists>p L' rt'.
                Layer_insertKeyframe 10 Lb rtb = Inr (p, L', rt') \<and>
                map s_name (Layer_getShapesAtFrame 10 L') = [''Rectangle Copy''] \<and>
                map s_id (Layer_getShapesAtFrame 10 L') = [''uid5''] \<and>
                (\<forall>c\<in>set (Layer_getShapesAtFrame 10 L').
                   ownAddrs c \<subseteq> {nextAddr rtb ..< nextAddr rt'}))))"
proof -
  from blank_facts obtain doc rt L kf r Lb rtb fb where
    f: "drawnWorld = Inr (doc, rt)" "d_layers doc = [L]" "l_frames L = [kf]" "isKeyframe kf"
       "f_index kf = 1" "\<not> isEmpty kf" "f_shapes kf = [r]" "r = fst drawnRectangle" "s_instance r"
       "s_name r = ''Rectangle''" "s_id r = ''uid3''"
    and g: "nextAddr rt = 7" "uidsDrawn rt = 4" "uidSource rt = (\<lambda>n. ''uid'' @ showNat n)"
    and b: "Layer_insertBlankKeyframe 10 L rt = Inr (1, Lb, rtb)" "l_frames Lb = [kf, fb]"
       "f_instance fb" "f_index fb = 10" "isKeyframe fb" "isEmpty fb" "f_shapes fb = []"
       "nextAddr rtb = 7" "uidsDrawn rtb = 5" "uidSource rtb = (\<lambda>n. ''uid'' @ showNat n)"
    by (elim exE conjE) (rule that; assumption)
  have kept: "keptPaths (contents (s_paths r))"
    unfolding f(8) by (simp add: session_defs keptPaths_def keptByJSON_def)
  have old: "\<forall>s\<in>set [r]. ownAddrs s \<union> nestedAddrs s \<subseteq> {..< nextAddr rt}"
    unfolding f(8) g(1)
    by (simp add: session_defs ownAddrs_def nestedAddrs_def)
  have fresh: "\<forall>j<length [r]. uidSource rt (uidsDrawn rt + j) \<notin> s_id ` set [r]"
    using f(11) g by (simp add: showNat_digit)
  have flag: "isEmpty kf \<longrightarrow> [r] = []" using f by simp
  have inst: "list_all s_instance [r]" using f by simp
  have none: "Layer_getFrame 10 L = None"
    using f by (simp add: Layer_getFrame_def)
  have prev: "Layer_getKeyframeAt (10 - 1) L = Some kf"
    using f by (simp add: Layer_getKeyframeAt_def keyframesUpTo_def)
  have slot: "case Layer_getFrame 10 L of None \<Rightarrow> True
              | Some f \<Rightarrow> f_instance f \<and> isEmpty f \<and> f_shapes f = []"
    using none by simp
  from insertKeyframe_carries_forward[OF prev f(7) flag inst slot, of rt] obtain p L' rt' S' where
    r: "Layer_insertKeyframe 10 L rt = Inr (p, L', rt')"
       "Layer_getShapesAtFrame 10 L' = S'"
       "list_all2 (\<lambda>s c. s_name c = s_name s @ '' Copy'' \<and>
                  contents (s_paths c) = JSON_parse_stringify (contents (s_paths s)) \<and>
                  (keptPaths (contents (s_paths s)) \<longrightarrow>
                     contents (s_paths c) = contents (s_paths s)) \<and>
                  map_option strokeValue (s_stroke c) = map_option strokeValue (s_stroke s) \<and>
                  map_option fillValue (s_fill c) = map_option fillValue (s_fill s) \<and>
                  contents (s_transform c) = contents (s_transform s)) [r] S'"
       "map s_id S' = map (uidSource rt) [uidsDrawn rt ..< uidsDrawn rt + length [r]]"
       "(\<forall>j<length [r]. uidSource rt (uidsDrawn rt + j) \<notin> s_id ` set [r]) \<longrightarrow>
              s_id ` set S' \<inter> s_id ` set [r] = {}"
       "\<forall>c\<in>set S'. ownAddrs c \<subseteq> {nextAddr rt ..< nextAddr rt'}"
       "(\<forall>s\<in>set [r]. ownAddrs s \<union> nestedAddrs s \<subseteq> {..< nextAddr rt}) \<longrightarrow>
              (\<forall>c\<in>set S'. \<forall>s\<in>set [r]. ownAddrs c \<inter> (ownAddrs s \<union> nestedAddrs s) = {})"
    by (elim exE conjE) (rule that; assumption)
  from r(7) old have na: "\<forall>c\<in>set S'. ownAddrs c \<inter> (ownAddrs r \<union> nestedAddrs r) = {}" by simp
  from r(5) fresh have di: "s_id ` set S' \<inter> {s_id r} = {}" by simp
  from r(3) kept obtain c where S': "S' = [c]" and cn: "s_name c = s_name r @ '' Copy''"
    and cp: "contents (s_paths c) = contents (s_paths r)"
    by (auto simp: list_all2_Cons1)
  have ids: "map s_id S' = [''uid4'']"
    using r(4) g by (simp add: showNat_digit)
  have A: "\<exists>p L' rt'.
           Layer_insertKeyframe 10 L rt = Inr (p, L', rt') \<and>
           map s_name (Layer_getShapesAtFrame 10 L') = [''Rectangle Copy''] \<and>
           map s_id (Layer_getShapesAtFrame 10 L') = [''uid4''] \<and>
           map (\<lambda>c. contents (s_paths c)) (Layer_getShapesAtFrame 10 L') = [contents (s_paths r)] \<and>
           (\<forall>c\<in>set (Layer_getShapesAtFrame 10 L').
              ownAddrs c \<subseteq> {nextAddr rt ..< nextAddr rt'} \<and>
              ownAddrs c \<inter> (ownAddrs r \<union> nestedAddrs r) = {}) \<and>
           s_id ` set (Layer_getShapesAtFrame 10 L') \<inter> {s_id r} = {}"
    using r(1,2,6) S' cn cp f(10) ids na di by simp
  have prevb: "Layer_getKeyframeAt (10 - 1) Lb = Some kf"
    using f b by (simp add: Layer_getKeyframeAt_def keyframesUpTo_def)
  have slotb: "case Layer_getFrame 10 Lb of None \<Rightarrow> True
              | Some f \<Rightarrow> f_instance f \<and> isEmpty f \<and> f_shapes f = []"
    using f b by (simp add: Layer_getFrame_def)
  from insertKeyframe_carries_forward[OF prevb f(7) flag inst slotb, of rtb]
  obtain pb Lb' rtb' Sb' where
    rb: "Layer_insertKeyframe 10 Lb rtb = Inr (pb, Lb', rtb')"
       "Layer_getShapesAtFrame 10 Lb' = Sb'"
       "list_all2 (\<lambda>s c. s_name c = s_name s @ '' Copy'' \<and>
                  contents (s_paths c) = JSON_parse_stringify (contents (s_paths s)) \<and>
                  (keptPaths (contents (s_paths s)) \<longrightarrow>
                     contents (s_paths c) = contents (s_paths s)) \<and>
                  map_option strokeValue (s_stroke c) = map_option strokeValue (s_stroke s) \<and>
                  map_option fillValue (s_fill c) = map_option fillValue (s_fill s) \<and>
                  contents (s_transform c) = contents (s_transform s)) [r] Sb'"
       "map s_id Sb' = map (uidSource rtb) [uidsDrawn rtb ..< uidsDrawn rtb + length [r]]"
       "\<forall>c\<in>set Sb'. ownAddrs c \<subseteq> {nextAddr rtb ..< nextAddr rtb'}"
    by (elim exE conjE) (rule that; assumption)
  from rb(3) obtain cb where Sb': "Sb' = [cb]" and cbn: "s_name cb = s_name r @ '' Copy''"
    by (auto simp: list_all2_Cons1)
  have idsb: "map s_id Sb' = [''uid5'']"
    using rb(4) b by (simp add: showNat_digit)
  have B: "map (\<lambda>f. (f_index f, isEmpty f, f_shapes f = [])) (l_frames Lb)
               = [(1, False, False), (10, True, True)] \<and>
             (\<exists>p L' rt'.
                Layer_insertKeyframe 10 Lb rtb = Inr (p, L', rt') \<and>
                map s_name (Layer_getShapesAtFrame 10 L') = [''Rectangle Copy''] \<and>
                map s_id (Layer_getShapesAtFrame 10 L') = [''uid5''] \<and>
                (\<forall>c\<in>set (Layer_getShapesAtFrame 10 L').
                   ownAddrs c \<subseteq> {nextAddr rtb ..< nextAddr rt'}))"
    using f b rb(1,2,5) Sb' cbn idsb by simp
  show ?thesis
    unfolding f(1) using f(2,3,5) none A[unfolded f(8)] b(1) B by simp
qed

text \<open>
  C3 as stated fails, on seven layers.
  (1) The layer of the example session: the shape at frame 10 is not
  structurally equal to the shape at frame 1 (its name is \<open>Rectangle Copy\<close>,
  not \<open>Rectangle\<close>), and the two are not free of aliasing (both refer to the
  colour objects at addresses 0 and 2).
  (2) A layer whose frame 10 is a keyframe that holds a shape:
  \<open>insertKeyframe(10)\<close> leaves that shape there.
  (3) A layer with an empty keyframe at frame 5: frame 10 gets no shape.
  (4) A layer whose rectangle has the coordinate \<^verbatim>\<open>Infinity\<close>: the copy at frame
  10 has \<^verbatim>\<open>null\<close>.
  (5) The layer of the document that \<open>fromJSON\<close> builds from the \<open>toJSON\<close> of the
  session's document: its frame and shape are plain objects, and
  \<open>insertKeyframe(10)\<close> raises a \<open>TypeError\<close>.
  (6) The session's layer after the \<open>isEmpty\<close> field of frame 1 was set: frame
  10 gets no shape.
  (7) A session in which \<open>generateUID\<close> returns the same string at every call:
  the shape at frame 10 has the id of the shape at frame 1.
\<close>

theorem insertKeyframe_copy_differs:
  "(case drawnWorld of
       Inl e \<Rightarrow> False
     | Inr (doc, rt) \<Rightarrow>
         (case Layer_insertKeyframe 10 (hd (d_layers doc)) rt of
            Inl e \<Rightarrow> False
          | Inr (p, L', rt') \<Rightarrow>
              map s_name (Layer_getShapesAtFrame 1 L') = [''Rectangle''] \<and>
              map s_name (Layer_getShapesAtFrame 10 L') = [''Rectangle Copy''] \<and>
              map nestedAddrs (Layer_getShapesAtFrame 1 L') = [{0, 2}] \<and>
              map nestedAddrs (Layer_getShapesAtFrame 10 L') = [{0, 2}])) \<and>
   (case drawnWorld of
       Inl e \<Rightarrow> False
     | Inr (doc, rt) \<Rightarrow>
         (case Layer_insertBlankKeyframe 10 (hd (d_layers doc)) rt of
            Inl e \<Rightarrow> False
          | Inr (q, L1, rt1) \<Rightarrow>
              (case createRectangle exactPlus (Finite 5) (Finite 5) (Finite 20) (Finite 20)
                      None None rt1 of
                 (other, rt2) \<Rightarrow>
                   (case Layer_addShapeAtFrame 10 other L1 rt2 of
                      Inl e \<Rightarrow> False
                    | Inr (L2, rt3) \<Rightarrow>
                        (case Layer_insertKeyframe 10 L2 rt3 of
                           Inl e \<Rightarrow> False
                         | Inr (p, L3, rt4) \<Rightarrow>
                             Layer_getShapesAtFrame 1 L3 = [fst drawnRectangle] \<and>
                             Layer_getShapesAtFrame 10 L3 = [other] \<and>
                             s_name other = ''Rectangle'' \<and>
                             contents (s_paths other)
                               \<noteq> JSON_parse_stringify (contents (s_paths (fst drawnRectangle)))))))) \<and>
   (case drawnWorld of
       Inl e \<Rightarrow> False
     | Inr (doc, rt) \<Rightarrow>
         (case Layer_insertBlankKeyframe 5 (hd (d_layers doc)) rt of
            Inl e \<Rightarrow> False
          | Inr (q, L1, rt1) \<Rightarrow>
              (case Layer_insertKeyframe 10 L1 rt1 of
                 Inl e \<Rightarrow> False
               | Inr (p, L2, rt2) \<Rightarrow>
                   map f_index (l_frames L2) = [1, 5, 10] \<and>
                   map s_name (Layer_getShapesAtFrame 1 L2) = [''Rectangle''] \<and>
                   Layer_getShapesAtFrame 10 L2 = []))) \<and>
   (case farRectangle of
       (far, rt) \<Rightarrow>
         (case Layer_addShapeAtFrame 1 far (hd (d_layers (fst startWorld))) rt of
            Inl e \<Rightarrow> False
          | Inr (L1, rt1) \<Rightarrow>
              (case Layer_insertKeyframe 10 L1 rt1 of
                 Inl e \<Rightarrow> False
               | Inr (p, L2, rt2) \<Rightarrow>
                   map (\<lambda>s. map (\<lambda>p. map (\<lambda>c. map pt_x (pc_points c)) (vp_commands p))
                              (contents (s_paths s))) (Layer_getShapesAtFrame 1 L2)
                     = [[[[Some PosInfinity], [Some PosInfinity], [Some PosInfinity],
                          [Some PosInfinity], []]]] \<and>
                   map (\<lambda>s. map (\<lambda>p. map (\<lambda>c. map pt_x (pc_points c)) (vp_commands p))
                              (contents (s_paths s))) (Layer_getShapesAtFrame 10 L2)
                     = [[[[None], [None], [None], [None], []]]]))) \<and>
   (case reloadedWorld of
       Inl e \<Rightarrow> False
     | Inr (doc, rt) \<Rightarrow>
         map s_name (Layer_getShapesAtFrame 1 (hd (d_layers doc))) = [''Rectangle''] \<and>
         Layer_insertKeyframe 10 (hd (d_layers doc)) rt = Inl TypeError) \<and>
   (case drawnWorld of
       Inl e \<Rightarrow> False
     | Inr (doc, rt) \<Rightarrow>
         (case Layer_insertKeyframe 10
                 ((hd (d_layers doc))\<lparr>l_frames :=
                    map (\<lambda>f. f\<lparr>isEmpty := True\<rparr>) (l_frames (hd (d_layers doc)))\<rparr>) rt of
            Inl e \<Rightarrow> False
          | Inr (p, L', rt') \<Rightarrow>
              map s_name (Layer_getShapesAtFrame 1 L') = [''Rectangle''] \<and>
              Layer_getShapesAtFrame 10 L' = [])) \<and>
   (case newDocument noInit (snd stuckRectangle) of
       (doc, rt) \<Rightarrow>
         (case Layer_addShapeAtFrame 1 (fst stuckRectangle) (hd (d_layers doc)) rt of
            Inl e \<Rightarrow> False
          | Inr (L1, rt1) \<Rightarrow>
              (case Layer_insertKeyframe 10 L1 rt1 of
                 Inl e \<Rightarrow> False
               | Inr (p, L2, rt2) \<Rightarrow>
                   map s_id (Layer_getShapesAtFrame 1 L2) = [''uid''] \<and>
                   map s_id (Layer_getShapesAtFrame 10 L2) = [''uid''])))"
  unfolding drawnWorld_def reloadedWorld_def
  by (intro conjI;
      simp add: session_defs layer_defs command_defs json_defs path_defs nestedAddrs_def
        numeral_2_eq_2 farRectangle_def stuckRectangle_def stuckRuntime_def)

subsection \<open>Frame 1 stays a keyframe\<close>

lemma frameOne_update:
  assumes f1: "frameOneIsKeyframe L"
    and ix: "f_index g = f_index (l_frames L ! k)"
    and kf: "isKeyframe (l_frames L ! k) \<Longrightarrow> isKeyframe g"
  shows "frameOneIsKeyframe (L\<lparr>l_frames := (l_frames L)[k := g]\<rparr>)"
proof -
  let ?xs = "l_frames L" and ?ys = "(l_frames L)[k := g]"
  from f1 obtain p where p: "Layer_getFramePos 1 L = Some p" and pk: "isKeyframe (?xs ! p)"
    by (auto simp: frameOneIsKeyframe_def getFrame_getFramePos split: option.splits)
  have "findIndex (\<lambda>f. f_index f = 1) ?ys = findIndex (\<lambda>f. f_index f = 1) ?xs"
    by (rule findIndex_cong_nth) (auto simp: nth_list_update_if ix split: if_splits)
  with p have p': "Layer_getFramePos 1 (L\<lparr>l_frames := ?ys\<rparr>) = Some p"
    by (simp add: Layer_getFramePos_def)
  from p have "p < length ?xs" by (simp add: Layer_getFramePos_def findIndex_Some_iff)
  with pk kf have "isKeyframe (?ys ! p)" by (auto simp: nth_list_update_if)
  with p' show ?thesis by (simp add: frameOneIsKeyframe_def getFrame_getFramePos)
qed

lemma frameOne_push_sort:
  assumes f1: "frameOneIsKeyframe L" and ne: "f_index g \<noteq> 1"
  shows "frameOneIsKeyframe (L\<lparr>l_frames := sort_key f_index (l_frames L @ [g])\<rparr>)"
proof -
  have "find (\<lambda>f. f_index f = 1) (sort_key f_index (l_frames L @ [g]))
        = find (\<lambda>f. f_index f = 1) (l_frames L)"
    using ne by (simp add: find_sort_key_eq) (simp add: find_filter)
  with f1 show ?thesis by (simp add: frameOneIsKeyframe_def Layer_getFrame_def)
qed

lemma frameOne_removeAt:
  assumes f1: "frameOneIsKeyframe L" and i: "i < length (l_frames L)"
    and ne: "f_index (l_frames L ! i) \<noteq> 1"
  shows "frameOneIsKeyframe (L\<lparr>l_frames := removeAt i (l_frames L)\<rparr>)"
proof -
  have "find (\<lambda>f. f_index f = 1) (removeAt i (l_frames L)) = find (\<lambda>f. f_index f = 1) (l_frames L)"
    using i ne by (simp add: find_filter filter_removeAt)
  with f1 show ?thesis by (simp add: frameOneIsKeyframe_def Layer_getFrame_def)
qed

lemma frameOne_getFramePos_None: "frameOneIsKeyframe L \<Longrightarrow> Layer_getFramePos 1 L \<noteq> None"
  by (auto simp: frameOneIsKeyframe_def getFrame_getFramePos split: option.splits)

lemma insertKeyframe_frameOne:
  assumes "frameOneIsKeyframe L" and "Layer_insertKeyframe i L rt = Inr (p, L', rt')"
  shows "frameOneIsKeyframe L'"
proof (cases "Layer_getFramePos i L")
  case None
  have "i \<noteq> 1" using frameOne_getFramePos_None[OF assms(1)] None by auto
  with assms None show ?thesis
    by (auto simp: Layer_insertKeyframe_def Let_def split: sum.splits prod.splits
        dest!: newFrame_index intro!: frameOne_push_sort)
next
  case (Some k)
  note ix = getFramePos_index[OF Some]
  let ?f1 = "Frame_makeKeyframe (l_frames L ! k)"
  have a: "frameOneIsKeyframe (L\<lparr>l_frames := (l_frames L)[k := ?f1]\<rparr>)"
    by (rule frameOne_update[OF assms(1)]) (simp_all add: Frame_makeKeyframe_def)
  have b: "frameOneIsKeyframe (L\<lparr>l_frames := (l_frames L)[k := ?f1\<lparr>f_shapes := cs, isEmpty := False\<rparr>]\<rparr>)" for cs
    by (rule frameOne_update[OF assms(1)]) (simp_all add: Frame_makeKeyframe_def)
  from assms(2) Some show ?thesis
    using a b by (auto simp: Layer_insertKeyframe_def Let_def split: if_splits option.splits sum.splits)
qed

lemma insertBlankKeyframe_frameOne:
  assumes "frameOneIsKeyframe L" and "Layer_insertBlankKeyframe i L rt = Inr (p, L', rt')"
  shows "frameOneIsKeyframe L'"
proof (cases "Layer_getFramePos i L")
  case None
  have "i \<noteq> 1" using frameOne_getFramePos_None[OF assms(1)] None by auto
  with assms None show ?thesis
    by (auto simp: Layer_insertBlankKeyframe_def Let_def split: sum.splits prod.splits
        dest!: newFrame_index intro!: frameOne_push_sort)
next
  case (Some k)
  note ix = getFramePos_index[OF Some]
  have a: "frameOneIsKeyframe (L\<lparr>l_frames := (l_frames L)[k := Frame_makeBlankKeyframe (l_frames L ! k)]\<rparr>)"
    by (rule frameOne_update[OF assms(1)]) (simp_all add: Frame_makeBlankKeyframe_def)
  from assms(2) Some show ?thesis
    using a by (auto simp: Layer_insertBlankKeyframe_def Let_def split: if_splits)
qed

lemma clearKeyframe_frameOne:
  assumes "frameOneIsKeyframe L" and "Layer_clearKeyframe i L = Inr L'"
  shows "frameOneIsKeyframe L'"
proof (cases "Layer_getFramePos i L")
  case None
  with assms show ?thesis by (simp add: Layer_clearKeyframe_def)
next
  case (Some k)
  note ix = getFramePos_index[OF Some]
  have a: "frameOneIsKeyframe (L\<lparr>l_frames := (l_frames L)[k := Frame_clear (l_frames L ! k)]\<rparr>)"
    by (rule frameOne_update[OF assms(1)]) (simp_all add: Frame_clear_def)
  have b: "i \<noteq> 1 \<Longrightarrow> frameOneIsKeyframe (L\<lparr>l_frames := removeAt k (l_frames L)\<rparr>)"
    using frameOne_removeAt[OF assms(1), of k] ix by simp
  from assms(2) Some show ?thesis
    using a b assms(1) by (auto simp: Layer_clearKeyframe_def Let_def split: if_splits)
qed

lemma addShapeAtFrame_frameOne:
  assumes "frameOneIsKeyframe L" and "Layer_addShapeAtFrame i s L rt = Inr (L', rt')"
  shows "frameOneIsKeyframe L'"
proof -
  let ?r = "case Layer_getKeyframePosAt i L of
              None \<Rightarrow> Layer_insertKeyframe i L rt
            | Some k \<Rightarrow>
                if f_index (l_frames L ! k) \<noteq> i
                then Layer_insertKeyframe i L rt
                else Inr (k, L, rt)"
  from assms(2) obtain k L1 rt1 where r: "?r = Inr (k, L1, rt1)"
    and L': "L' = L1\<lparr>l_frames := (l_frames L1)[k := Frame_addShape s (l_frames L1 ! k)]\<rparr>"
    by (auto simp: Layer_addShapeAtFrame_def Let_def split: sum.splits if_splits)
  have L1: "frameOneIsKeyframe L1"
    using r assms(1) insertKeyframe_frameOne[OF assms(1)]
    by (auto split: option.splits if_splits)
  show ?thesis unfolding L'
    by (rule frameOne_update[OF L1]) (simp_all add: Frame_addShape_def)
qed

lemma clearKeyframe_one:
  assumes "frameOneIsKeyframe L"
  shows "Layer_clearKeyframe 1 L = Inr L' \<Longrightarrow>
           (\<exists>f. Layer_getFrame 1 L' = Some f \<and> isKeyframe f \<and> f_shapes f = [] \<and> isEmpty f)"
    and "(\<exists>f. Layer_getFrame 1 L = Some f \<and> f_instance f) \<Longrightarrow> \<exists>L'. Layer_clearKeyframe 1 L = Inr L'"
proof -
  from assms obtain k where k: "Layer_getFramePos 1 L = Some k" and kf: "isKeyframe (l_frames L ! k)"
    by (auto simp: frameOneIsKeyframe_def getFrame_getFramePos split: option.splits)
  note ix = getFramePos_index[OF k]
  let ?L = "L\<lparr>l_frames := (l_frames L)[k := Frame_clear (l_frames L ! k)]\<rparr>"
  have "findIndex (\<lambda>f. f_index f = 1) (l_frames ?L) = findIndex (\<lambda>f. f_index f = 1) (l_frames L)"
    by (rule findIndex_cong_nth) (auto simp: nth_list_update_if Frame_clear_def)
  with k have pos: "Layer_getFramePos 1 ?L = Some k" by (simp add: Layer_getFramePos_def)
  have fr: "Layer_getFrame 1 ?L = Some (Frame_clear (l_frames L ! k))"
    using pos ix by (simp add: getFrame_getFramePos)
  show "Layer_clearKeyframe 1 L = Inr L' \<Longrightarrow>
          (\<exists>f. Layer_getFrame 1 L' = Some f \<and> isKeyframe f \<and> f_shapes f = [] \<and> isEmpty f)"
    using k kf fr by (auto simp: Layer_clearKeyframe_def Let_def Frame_clear_def split: if_splits)
  show "(\<exists>f. Layer_getFrame 1 L = Some f \<and> f_instance f) \<Longrightarrow> \<exists>L'. Layer_clearKeyframe 1 L = Inr L'"
    using k kf by (auto simp: Layer_clearKeyframe_def Let_def getFrame_getFramePos)
qed

text \<open>
  In a layer where \<open>getFrame(1)\<close> returns a keyframe, each of
  \<open>insertKeyframe\<close>, \<open>insertBlankKeyframe\<close>, \<open>clearKeyframe\<close> and
  \<open>addShapeAtFrame\<close>, when it returns, leaves a layer where \<open>getFrame(1)\<close>
  returns a keyframe.  After \<open>clearKeyframe(1)\<close>, \<open>getFrame(1)\<close> returns a
  keyframe with no shapes; and \<open>clearKeyframe(1)\<close> does return when frame 1 is
  a \<open>Frame\<close> instance.
\<close>

lemma frame_one_preserved:
  assumes "frameOneIsKeyframe L"
  shows "(Layer_insertKeyframe i L rt = Inr (p1, L1, rt1) \<longrightarrow> frameOneIsKeyframe L1) \<and>
         (Layer_insertBlankKeyframe i L rt = Inr (p2, L2, rt2) \<longrightarrow> frameOneIsKeyframe L2) \<and>
         (Layer_clearKeyframe i L = Inr L3 \<longrightarrow> frameOneIsKeyframe L3) \<and>
         (Layer_addShapeAtFrame i s L rt = Inr (L4, rt4) \<longrightarrow> frameOneIsKeyframe L4) \<and>
         (Layer_clearKeyframe 1 L = Inr L5 \<longrightarrow>
            (\<exists>f. Layer_getFrame 1 L5 = Some f \<and> isKeyframe f \<and> f_shapes f = [])) \<and>
         ((\<exists>f. Layer_getFrame 1 L = Some f \<and> f_instance f) \<longrightarrow>
            (\<exists>L'. Layer_clearKeyframe 1 L = Inr L'))"
proof (intro conjI impI)
  show "frameOneIsKeyframe L1" if "Layer_insertKeyframe i L rt = Inr (p1, L1, rt1)"
    using that by (rule insertKeyframe_frameOne[OF assms])
  show "frameOneIsKeyframe L2" if "Layer_insertBlankKeyframe i L rt = Inr (p2, L2, rt2)"
    using that by (rule insertBlankKeyframe_frameOne[OF assms])
  show "frameOneIsKeyframe L3" if "Layer_clearKeyframe i L = Inr L3"
    using that by (rule clearKeyframe_frameOne[OF assms])
  show "frameOneIsKeyframe L4" if "Layer_addShapeAtFrame i s L rt = Inr (L4, rt4)"
    using that by (rule addShapeAtFrame_frameOne[OF assms])
  show "\<exists>f. Layer_getFrame 1 L5 = Some f \<and> isKeyframe f \<and> f_shapes f = []"
    if "Layer_clearKeyframe 1 L = Inr L5"
    using clearKeyframe_one(1)[OF assms that] by blast
  show "\<exists>L'. Layer_clearKeyframe 1 L = Inr L'"
    if "\<exists>f. Layer_getFrame 1 L = Some f \<and> f_instance f"
    using that by (rule clearKeyframe_one(2)[OF assms])
qed

text \<open>
  C5.  The layer of the document that \<open>fromJSON\<close> builds from the \<open>toJSON\<close>
  of the session's document is a \<open>Layer\<close> instance whose frame 1 is the plain
  object that \<open>toJSON\<close> made: \<open>getFrame(1)\<close> returns it, it is a keyframe and
  holds the rectangle.  On that layer \<open>clearKeyframe(1)\<close> raises a
  \<open>TypeError\<close> instead of emptying frame 1, and so do
  \<open>insertBlankKeyframe(1)\<close>, \<open>insertKeyframe(10)\<close> and \<open>addShapeAtFrame\<close>.
\<close>

theorem clearKeyframe_after_fromJSON_raises:
  "(case drawnWorld of
      Inl e \<Rightarrow> False
    | Inr (doc0, rt0) \<Rightarrow>
        map s_name (Layer_getShapesAtFrame 1 (hd (d_layers doc0))) = [''Rectangle'']) \<and>
   (case reloadedWorld of
      Inl e \<Rightarrow> False
    | Inr (doc, rt) \<Rightarrow>
        map l_instance (d_layers doc) = [True] \<and>
        map f_instance (l_frames (hd (d_layers doc))) = [False] \<and>
        frameOneIsKeyframe (hd (d_layers doc)) \<and>
        map s_name (Layer_getShapesAtFrame 1 (hd (d_layers doc))) = [''Rectangle''] \<and>
        Layer_clearKeyframe 1 (hd (d_layers doc)) = Inl TypeError \<and>
        Layer_insertBlankKeyframe 1 (hd (d_layers doc)) rt = Inl TypeError \<and>
        Layer_insertKeyframe 10 (hd (d_layers doc)) rt = Inl TypeError \<and>
        Layer_addShapeAtFrame 1 (fst drawnRectangle) (hd (d_layers doc)) rt = Inl TypeError)"
  unfolding reloadedWorld_def drawnWorld_def
  by (simp add: session_defs layer_defs command_defs json_defs frameOneIsKeyframe_def)

subsection \<open>Document\<close>

text \<open>
  C9.  On a document with the three layers \<open>l0\<close> (top), \<open>l1\<close>, \<open>l2\<close> (bottom),
  \<open>getVisibleShapes\<close> returns the entries of \<open>l2\<close>, then those of \<open>l1\<close>, then
  those of \<open>l0\<close>: every shape of the layer stored at index 2 stands before
  every shape of the layer stored at index 0.  The entries of a layer are the
  shapes in effect at the current frame, each with the id of the layer, and
  none if the layer is not visible.
\<close>

theorem getVisibleShapes_three_layers:
  assumes "d_layers d = [l0, l1, l2]" and "l_instance l0" and "l_instance l1" and "l_instance l2"
  shows "Document_getVisibleShapes d =
           Inr ((if l_visible l2
                 then map (\<lambda>shape. (shape, l_id l2)) (Layer_getShapesAtFrame (currentFrame d) l2)
                 else [])
                @ (if l_visible l1
                   then map (\<lambda>shape. (shape, l_id l1)) (Layer_getShapesAtFrame (currentFrame d) l1)
                   else [])
                @ (if l_visible l0
                   then map (\<lambda>shape. (shape, l_id l0)) (Layer_getShapesAtFrame (currentFrame d) l0)
                   else []))"
  using assms by (simp add: Document_getVisibleShapes_def layerEntries_def)

text \<open>C9, at the three-layer document of the example session: the
  rectangle of the bottom layer comes first, the one of the top layer last.\<close>

theorem getVisibleShapes_three_layers_witness:
  "(case threeLayers of
      Inl e \<Rightarrow> False
    | Inr (d, rt) \<Rightarrow>
        (case d_layers d of
           [l0, l1, l2] \<Rightarrow>
             l_instance l0 \<and> l_instance l1 \<and> l_instance l2 \<and>
             map l_name [l0, l1, l2] = [''Top'', ''Layer 2'', ''Layer 1''] \<and>
             (case Document_getVisibleShapes d of
                Inl e \<Rightarrow> False
              | Inr es \<Rightarrow> map (\<lambda>e. (s_name (fst e), s_id (fst e), snd e)) es
                            = [(''Rectangle'', ''uid3'', l_id l2), (''Rectangle'', ''uid8'', l_id l0)])
         | _ \<Rightarrow> False))"
proof -
  have "\<exists>d rt l0 l1 l2 r0 r2. threeLayers = Inr (d, rt) \<and> d_layers d = [l0, l1, l2] \<and>
          l_instance l0 \<and> l_instance l1 \<and> l_instance l2 \<and>
          l_visible l0 \<and> l_visible l1 \<and> l_visible l2 \<and>
          map l_name [l0, l1, l2] = [''Top'', ''Layer 2'', ''Layer 1''] \<and>
          Layer_getShapesAtFrame (currentFrame d) l0 = [r0] \<and>
          Layer_getShapesAtFrame (currentFrame d) l1 = [] \<and>
          Layer_getShapesAtFrame (currentFrame d) l2 = [r2] \<and>
          s_name r0 = ''Rectangle'' \<and> s_id r0 = ''uid8'' \<and>
          s_name r2 = ''Rectangle'' \<and> s_id r2 = ''uid3''"
    unfolding threeLayers_def drawnWorld_def
    by (simp add: session_defs layer_defs command_defs Document_addLayer_def
        showNat.simps[of "Suc (Suc 0)"] showNat.simps[of "Suc (Suc (Suc 0))"])
  then obtain d rt l0 l1 l2 r0 r2 where
    f: "threeLayers = Inr (d, rt)" "d_layers d = [l0, l1, l2]"
       "l_instance l0" "l_instance l1" "l_instance l2"
       "l_visible l0" "l_visible l1" "l_visible l2"
       "map l_name [l0, l1, l2] = [''Top'', ''Layer 2'', ''Layer 1'']"
       "Layer_getShapesAtFrame (currentFrame d) l0 = [r0]"
       "Layer_getShapesAtFrame (currentFrame d) l1 = []"
       "Layer_getShapesAtFrame (currentFrame d) l2 = [r2]"
       "s_name r0 = ''Rectangle''" "s_id r0 = ''uid8''"
       "s_name r2 = ''Rectangle''" "s_id r2 = ''uid3''"
    by (elim exE conjE) (rule that; assumption)
  note t = getVisibleShapes_three_layers[OF f(2,3,4,5)]
  show ?thesis
    unfolding f(1) using t f(2-) by simp
qed

text \<open>
  C2.  For the document that \<open>new Document()\<close> builds, whatever ids are
  generated: \<open>toJSON\<close> succeeds, \<open>fromJSON\<close> of its result builds a document,
  and \<open>toJSON\<close> of that document raises a \<open>TypeError\<close>.  The constructor of
  \<open>Layer\<close> keeps the plain frame objects as they are, and \<open>Layer.toJSON\<close>
  calls \<open>toJSON\<close> on each of them.
\<close>

theorem roundtrip_toJSON_raises: "(case newDocument noInit rt of
      (d, rt1) \<Rightarrow>
        (case Document_toJSON d rt1 of
           Inl e \<Rightarrow> False
         | Inr (json, rt2) \<Rightarrow>
             (case Document_fromJSON json rt2 of
                (d', rt3) \<Rightarrow> Document_toJSON d' rt3 = Inl TypeError)))"
  by (simp add: newDocument_def noInit_def newLayer_def newFrame_def generateUID_def
      Document_toJSON_def call_Layer_toJSON_def Layer_toJSON_def call_Frame_toJSON_def
      Frame_toJSON_def Library_toJSON_def Document_fromJSON_def asLayer_def Let_def
      split: prod.splits)

subsection \<open>History\<close>


lemma runCommands_append:
  "runCommands impl as w = Inr (as', w1) \<Longrightarrow> runCommands impl bs w1 = Inr (bs', w2)
   \<Longrightarrow> runCommands impl (as @ bs) w = Inr (as' @ bs', w2)"
  by (induction as arbitrary: w as') (auto split: sum.splits prod.splits)

lemma undoInverts_Cons:
  "undoInverts impl (c # cs) w \<longleftrightarrow>
     (\<exists>c' w1 c''. cmd_execute impl c w = Inr (c', w1) \<and> cmd_undo impl c' w1 = Inr (c'', w) \<and>
        undoInverts impl cs w1)"
proof (cases "cmd_execute impl c w")
  case (Inl e)
  then show ?thesis by simp
next
  case (Inr r)
  obtain c' w1 where r: "r = (c', w1)" by (cases r)
  show ?thesis
  proof (cases "cmd_undo impl c' w1")
    case (Inl e)
    with Inr r show ?thesis by simp
  next
    case U: (Inr q)
    obtain c'' w2 where q: "q = (c'', w2)" by (cases q)
    with Inr r U show ?thesis by auto
  qed
qed

lemma undoInverts_runs: "undoInverts impl cs w \<Longrightarrow> \<exists>cs' w'. runCommands impl cs w = Inr (cs', w')"
proof (induction cs arbitrary: w)
  case Nil
  show ?case by simp
next
  case (Cons c cs)
  from Cons.prems undoInverts_Cons[of impl c cs w]
  obtain c' w1 where ex: "cmd_execute impl c w = Inr (c', w1)"
    and inv: "undoInverts impl cs w1"
    by blast
  from Cons.IH[OF inv] obtain cs' w' where "runCommands impl cs w1 = Inr (cs', w')" by blast
  with ex show ?case by simp
qed





lemma undoTimes_snoc:
  "undoTimes impl (Suc n) h w =
     (case undoTimes impl n h w of
        Inl e \<Rightarrow> Inl e
      | Inr (bs, h1, w1) \<Rightarrow>
          (case HistoryManager_undo impl h1 w1 of
             Inl e \<Rightarrow> Inl e
           | Inr (b, h2, w2) \<Rightarrow> Inr (bs @ [b], h2, w2)))"
proof (induction n arbitrary: h w)
  case 0
  show ?case
    by (cases "HistoryManager_undo impl h w") (auto split: prod.splits)
next
  case (Suc n)
  note unf = undoTimes.simps(2)
  show ?case
  proof (cases "HistoryManager_undo impl h w")
    case A: (Inl e)
    have "undoTimes impl (Suc (Suc n)) h w = Inl e"
      by (subst unf) (simp only: A sum.case)
    moreover have "undoTimes impl (Suc n) h w = Inl e"
      by (subst unf) (simp only: A sum.case)
    ultimately show ?thesis by (simp only: sum.case)
  next
    case (Inr r)
    obtain b h1 w1 where r: "r = (b, h1, w1)" by (cases r)
    note A = Inr[unfolded r]
    have L: "undoTimes impl (Suc (Suc n)) h w =
            (case undoTimes impl (Suc n) h1 w1 of
               Inl e \<Rightarrow> Inl e
             | Inr (bs, h'', w'') \<Rightarrow> Inr (b # bs, h'', w''))"
      by (subst unf) (simp only: A sum.case prod.case)
    have M: "undoTimes impl (Suc n) h w =
            (case undoTimes impl n h1 w1 of
               Inl e \<Rightarrow> Inl e
             | Inr (bs, h'', w'') \<Rightarrow> Inr (b # bs, h'', w''))"
      by (subst unf) (simp only: A sum.case prod.case)
    show ?thesis
    proof (cases "undoTimes impl n h1 w1")
      case B: (Inl e)
      have "undoTimes impl (Suc n) h1 w1 = Inl e"
        by (subst Suc.IH) (simp only: B sum.case)
      then show ?thesis
        unfolding L M by (simp only: B sum.case)
    next
      case (Inr q)
      obtain bs h2 w2 where q: "q = (bs, h2, w2)" by (cases q)
      note B = Inr[unfolded q]
      show ?thesis
      proof (cases "HistoryManager_undo impl h2 w2")
        case C: (Inl e)
        have "undoTimes impl (Suc n) h1 w1 = Inl e"
          by (subst Suc.IH) (simp only: B C sum.case prod.case)
        then show ?thesis
          unfolding L M by (simp only: B C sum.case prod.case)
      next
        case (Inr p)
        obtain b' h3 w3 where p: "p = (b', h3, w3)" by (cases p)
        note C = Inr[unfolded p]
        have "undoTimes impl (Suc n) h1 w1 = Inr (bs @ [b'], h3, w3)"
          by (subst Suc.IH) (simp only: B C sum.case prod.case)
        then show ?thesis
          unfolding L M by (simp only: B C sum.case prod.case append_Cons)
      qed
    qed
  qed
qed

lemma undo_all:
  assumes "undoInverts impl cs w" and "runCommands impl cs w = Inr (cs', w')"
    and "undoStack h = pre @ cs'" and "\<not> isExecuting h"
  shows "\<exists>h'. undoTimes impl (length cs) h w' = Inr (replicate (length cs) True, h', w) \<and>
              undoStack h' = pre \<and> \<not> isExecuting h' \<and> maxHistory h' = maxHistory h"
  using assms
proof (induction cs arbitrary: w cs' pre)
  case Nil
  then show ?case by simp
next
  case (Cons c cs)
  from Cons.prems(1) undoInverts_Cons[of impl c cs w] obtain c' w1 c'' where
    ex: "cmd_execute impl c w = Inr (c', w1)" and un: "cmd_undo impl c' w1 = Inr (c'', w)"
    and inv: "undoInverts impl cs w1"
    by blast
  from Cons.prems(2) ex obtain cs1 where run: "runCommands impl cs w1 = Inr (cs1, w')"
    and cs': "cs' = c' # cs1"
    by (auto split: sum.splits prod.splits)
  have st: "undoStack h = (pre @ [c']) @ cs1" using Cons.prems(3) cs' by simp
  from Cons.IH[OF inv run st Cons.prems(4)] obtain h1 where
    h1: "undoTimes impl (length cs) h w' = Inr (replicate (length cs) True, h1, w1)"
      "undoStack h1 = pre @ [c']" "\<not> isExecuting h1" "maxHistory h1 = maxHistory h"
    by blast
  let ?h2 = "h1\<lparr>undoStack := butlast (undoStack h1), redoStack := redoStack h1 @ [c''],
               isExecuting := False\<rparr>"
  have U: "HistoryManager_undo impl h1 w1 = Inr (True, ?h2, w)"
    using h1(2,3) un by (simp add: HistoryManager_undo_def)
  have "undoTimes impl (Suc (length cs)) h w' = Inr (replicate (length cs) True @ [True], ?h2, w)"
    by (subst undoTimes_snoc) (simp only: h1(1) U sum.case prod.case)
  moreover have "replicate (length cs) True @ [True] = replicate (length (c # cs)) True"
    by (simp add: replicate_append_same)
  ultimately have "undoTimes impl (length (c # cs)) h w' = Inr (replicate (length (c # cs)) True, ?h2, w)"
    by (simp del: undoTimes.simps)
  moreover have "undoStack ?h2 = pre" "\<not> isExecuting ?h2" "maxHistory ?h2 = maxHistory h"
    using h1 by simp_all
  ultimately show ?case by blast
qed








text \<open>
  C1.  The example session: a rectangle is added to frame 1 and then deleted,
  both through the history manager; then \<open>undo\<close> twice and \<open>redo\<close> twice.
  All four calls return true.  After the two executions frame 1 holds no
  shape; after the undos and redos it holds a shape named
  \<open>Rectangle Copy Copy\<close>.  The \<open>undo\<close> of the deletion reinstates a clone under
  a new id, which neither the \<open>undo\<close> of the addition nor the repeated deletion
  finds.
\<close>

theorem undo_redo_after_delete:
  "(case executeAll commands
           [AddShapeCommand firstLayerId 1 (fst drawnRectangle),
            RemoveShapesCommand [s_id (fst drawnRectangle)] []]
           newHistoryManager (fst startWorld, snd drawnRectangle) of
      Inl e \<Rightarrow> False
    | Inr (h, w) \<Rightarrow>
        (case undoTimes commands 2 h w of
           Inl e \<Rightarrow> False
         | Inr (bs, h1, w1) \<Rightarrow>
             (case redoTimes commands 2 h1 w1 of
                Inl e \<Rightarrow> False
              | Inr (bs', h2, w2) \<Rightarrow>
                  bs = [True, True] \<and> bs' = [True, True] \<and>
                  map s_name (Layer_getShapesAtFrame 1 (hd (d_layers (fst w)))) = [] \<and>
                  map s_name (Layer_getShapesAtFrame 1 (hd (d_layers (fst w2))))
                    = [''Rectangle Copy Copy''])))"
  by (simp add: session_defs layer_defs command_defs numeral_2_eq_2)

end
